theory Spec2Isabelle
  imports Main "HOL-Library.Word" "HOL-Library.Stream"
begin

unbundle bit_operations_syntax

section \<open>Data\<close>

text \<open>
  Python \<open>bytes\<close> are lists of 8-bit words. Python \<open>str\<close> values are \<open>string\<close>s; a
  character whose top bit is set stands for a non-ASCII code point. Python's unbounded
  integers are \<open>int\<close>.
\<close>

type_synonym byte = "8 word"
type_synonym bytes = "byte list"

text \<open>
  Every \<open>raise\<close> of the source and of the library functions it calls is a value of
  \<open>error\<close>. The source raises \<open>ValueError\<close> with different messages; each message is
  a constructor, named after the error kind it stands for.
\<close>

datatype error =
    BinasciiError \<comment> \<open>\<open>binascii.Error\<close>, from \<open>base64.urlsafe_b64decode\<close>\<close>
  | UnicodeEncodeError \<comment> \<open>\<open>data.encode("ascii")\<close> on a non-ASCII string\<close>
  | OverflowError \<comment> \<open>\<open>int.to_bytes\<close>: negative value or too few bytes\<close>
  | NegativeArgument \<comment> \<open>\<open>secrets.token_bytes\<close> with a negative size\<close>
  | TypeError \<comment> \<open>\<open>dict(a=..., **params)\<close> with \<open>a\<close> among \<open>params\<close>\<close>
  | KeyError string \<comment> \<open>\<open>TABLE[alg]\<close> with \<open>alg\<close> not in the table, uncaught\<close>
  | UnsupportedCurve string \<comment> \<open>\<open>UnsupportedEllipticCurve(crv)\<close>\<close>
  | StructuralValidationError string \<comment> \<open>base validation: parameter missing or malformed\<close>
  | UnsupportedAlgorithm string \<comment> \<open>\<open>ValueError("Unsupported signing alg", alg)\<close>, \<open>ValueError("Unsupported alg", alg)\<close>\<close>
  | NoAlgorithmSpecified \<comment> \<open>algorithm resolution found no algorithm\<close>
  | KeySizeMismatch int int \<comment> \<open>\<open>ValueError("This key size of ... doesn't match ...")\<close>: actual and expected bits\<close>
  | PrimitiveError string \<comment> \<open>raised inside the cryptography engine, e.g. \<open>InvalidTag\<close>\<close>

section \<open>Base64 of the standard library\<close>

text \<open>
  \<open>base64.urlsafe_b64encode\<close> is \<open>binascii.b2a_base64\<close> (RFC 4648: three bytes give
  four characters of the alphabet, a last group of one or two bytes is padded with
  \<open>=\<close>) followed by the translation of \<open>+\<close> and \<open>/\<close> to \<open>-\<close> and \<open>_\<close>.
\<close>

definition table_b2a_base64 :: string where
  "table_b2a_base64 = ''ABCDEFGHIJKLMNOPQRSTUVWXYZabcdefghijklmnopqrstuvwxyz0123456789+/''"

definition BASE64_PAD :: char where
  "BASE64_PAD = CHR ''=''"

definition b2a_char :: "byte \<Rightarrow> char" where
  "b2a_char v = table_b2a_base64 ! unat (v AND 0x3f)"

fun b2a_base64 :: "bytes \<Rightarrow> string" where
  "b2a_base64 (a # b # c # rest) =
     b2a_char (drop_bit 2 a)
     # b2a_char (push_bit 4 (a AND 0x03) OR drop_bit 4 b)
     # b2a_char (push_bit 2 (b AND 0x0f) OR drop_bit 6 c)
     # b2a_char c
     # b2a_base64 rest"
| "b2a_base64 [a, b] =
     [b2a_char (drop_bit 2 a),
      b2a_char (push_bit 4 (a AND 0x03) OR drop_bit 4 b),
      b2a_char (push_bit 2 (b AND 0x0f)),
      BASE64_PAD]"
| "b2a_base64 [a] =
     [b2a_char (drop_bit 2 a),
      b2a_char (push_bit 4 (a AND 0x03)),
      BASE64_PAD,
      BASE64_PAD]"
| "b2a_base64 [] = []"

definition urlsafe_encode_translation :: "char \<Rightarrow> char" where
  "urlsafe_encode_translation c =
     (if c = CHR ''+'' then CHR ''-'' else if c = CHR ''/'' then CHR ''_'' else c)"

definition urlsafe_decode_translation :: "char \<Rightarrow> char" where
  "urlsafe_decode_translation c =
     (if c = CHR ''-'' then CHR ''+'' else if c = CHR ''_'' then CHR ''/'' else c)"

definition urlsafe_b64encode :: "bytes \<Rightarrow> string" where
  "urlsafe_b64encode s = map urlsafe_encode_translation (b2a_base64 s)"

text \<open>
  \<open>binascii.a2b_base64\<close> in its default, non-strict mode, as CPython implements it: a
  loop over the input with the position in the current group of four (\<open>quad_pos\<close>), the
  bits left over from the previous character (\<open>leftchar\<close>) and the number of padding
  characters seen in a row (\<open>pads\<close>). Characters outside the alphabet are skipped. A
  padding character ends the input once the group is complete with it
  (\<open>quad_pos >= 2 && quad_pos + ++pads >= 4\<close>); whatever follows is not read. Input
  that ends inside a group is an error.
\<close>

fun index_from :: "nat \<Rightarrow> char \<Rightarrow> string \<Rightarrow> nat option" where
  "index_from i c [] = None"
| "index_from i c (x # xs) = (if x = c then Some i else index_from (Suc i) c xs)"

definition table_a2b_base64 :: "char \<Rightarrow> byte option" where
  "table_a2b_base64 c = map_option of_nat (index_from 0 c table_b2a_base64)"

fun a2b_loop :: "nat \<Rightarrow> byte \<Rightarrow> nat \<Rightarrow> string \<Rightarrow> bytes \<Rightarrow> error + bytes" where
  "a2b_loop quad_pos leftchar pads [] bin_data =
     (if quad_pos \<noteq> 0 then Inl BinasciiError else Inr bin_data)"
| "a2b_loop quad_pos leftchar pads (this_ch # ascii_data) bin_data =
     (if this_ch = BASE64_PAD then
        (if 2 \<le> quad_pos \<and> 4 \<le> quad_pos + (pads + 1) then Inr bin_data
         else a2b_loop quad_pos leftchar (if 2 \<le> quad_pos then pads + 1 else pads)
                ascii_data bin_data)
      else
        (case table_a2b_base64 this_ch of
           None \<Rightarrow> a2b_loop quad_pos leftchar pads ascii_data bin_data
         | Some v \<Rightarrow>
             (if quad_pos = 0 then a2b_loop 1 v 0 ascii_data bin_data
              else if quad_pos = 1 then
                a2b_loop 2 (v AND 0x0f) 0 ascii_data
                  (bin_data @ [push_bit 2 leftchar OR drop_bit 4 v])
              else if quad_pos = 2 then
                a2b_loop 3 (v AND 0x03) 0 ascii_data
                  (bin_data @ [push_bit 4 leftchar OR drop_bit 2 v])
              else
                a2b_loop 0 0 0 ascii_data
                  (bin_data @ [push_bit 6 leftchar OR v]))))"

definition a2b_base64 :: "string \<Rightarrow> error + bytes" where
  "a2b_base64 s = a2b_loop 0 0 0 s []"

definition urlsafe_b64decode :: "string \<Rightarrow> error + bytes" where
  "urlsafe_b64decode s = a2b_base64 (map urlsafe_decode_translation s)"

section \<open>utils.py\<close>

text \<open>\<open>encoded.rstrip(b"=")\<close>: the trailing padding characters are removed.\<close>

definition rstrip_pad :: "string \<Rightarrow> string" where
  "rstrip_pad s = rev (dropWhile (\<lambda>c. c = BASE64_PAD) (rev s))"

text \<open>
  \<open>b64u_encode\<close> on \<open>bytes\<close> (a \<open>str\<close> argument is first turned into bytes by
  \<open>data.encode(encoding)\<close>; every caller in the key classes passes bytes). The result
  is the ASCII text of the encoding.
\<close>

definition b64u_encode :: "bytes \<Rightarrow> bool \<Rightarrow> string" where
  "b64u_encode data padded =
     (let encoded = urlsafe_b64encode data
      in if \<not> padded then rstrip_pad encoded else encoded)"

text \<open>
  \<open>b64u_decode\<close> on a \<open>str\<close>: \<open>data.encode("ascii")\<close> raises on a non-ASCII
  character; then \<open>len(data) % 4\<close> padding characters are appended.
\<close>

definition is_ascii :: "char \<Rightarrow> bool" where
  "is_ascii c = (\<not> digit7 c)"

definition add_padding :: "string \<Rightarrow> string" where
  "add_padding data =
     (let padding_len = length data mod 4
      in if padding_len \<noteq> 0 then data @ replicate padding_len BASE64_PAD else data)"

definition b64u_decode :: "string \<Rightarrow> error + bytes" where
  "b64u_decode data =
     (if \<not> list_all is_ascii data then Inl UnicodeEncodeError
      else urlsafe_b64decode (add_padding data))"

text \<open>
  \<open>int_to_bytes\<close>: \<open>i.to_bytes(length, "big", signed=False)\<close> raises \<open>OverflowError\<close>
  on a negative integer and on one that needs more than \<open>length\<close> bytes; without a
  length, \<open>(i.bit_length() + 7) // 8\<close> bytes are used.
\<close>

function bit_length :: "int \<Rightarrow> nat" where
  "bit_length i = (if i \<le> 0 then 0 else Suc (bit_length (i div 2)))"
  by pat_completeness auto
termination
  by (relation "measure nat") auto

fun to_bytes_big :: "nat \<Rightarrow> int \<Rightarrow> bytes" where
  "to_bytes_big 0 i = []"
| "to_bytes_big (Suc len) i = to_bytes_big len (i div 256) @ [of_int (i mod 256)]"

definition int_to_bytes :: "int \<Rightarrow> nat option \<Rightarrow> error + bytes" where
  "int_to_bytes i length_opt =
     (if i < 0 then Inl OverflowError
      else
        let len = (case length_opt of None \<Rightarrow> (bit_length i + 7) div 8 | Some l \<Rightarrow> l)
        in if 256 ^ len \<le> i then Inl OverflowError else Inr (to_bytes_big len i))"

definition int_to_b64u :: "int \<Rightarrow> nat option \<Rightarrow> error + string" where
  "int_to_b64u i length_opt =
     (case int_to_bytes i length_opt of Inl e \<Rightarrow> Inl e | Inr data \<Rightarrow> Inr (b64u_encode data False))"

text \<open>\<open>int.from_bytes(b, "big", signed=False)\<close>.\<close>

definition int_from_bytes :: "bytes \<Rightarrow> int" where
  "int_from_bytes b = foldl (\<lambda>acc x. acc * 256 + uint x) 0 b"

definition b64u_to_int :: "string \<Rightarrow> error + int" where
  "b64u_to_int b = (case b64u_decode b of Inl e \<Rightarrow> Inl e | Inr data \<Rightarrow> Inr (int_from_bytes data))"

section \<open>Collaborators outside the sources\<close>

text \<open>
  A Python \<open>dict\<close> with string keys is an association list in insertion order; \<open>map_of\<close>
  looks a key up. \<open>dict(a=..., b=..., **params)\<close> raises \<open>TypeError\<close> when \<open>params\<close>
  repeats one of the keyword names.
\<close>

type_synonym pydict = "(string \<times> string) list"

definition dict_kwargs :: "pydict \<Rightarrow> pydict \<Rightarrow> error + pydict" where
  "dict_kwargs named params =
     (if list_ex (\<lambda>k. k \<in> set (map fst params)) (map fst named) then Inl TypeError
      else Inr (named @ params))"

text \<open>
  Python slices with one bound: a negative bound counts from the end and is clamped to
  the sequence.
\<close>

definition slice_bound :: "int \<Rightarrow> nat \<Rightarrow> nat" where
  "slice_bound i n = (if i < 0 then nat (max (int n + i) 0) else min (nat i) n)"

definition slice_to :: "'a list \<Rightarrow> int \<Rightarrow> 'a list" where
  "slice_to xs stop = take (slice_bound stop (length xs)) xs"

definition slice_from :: "'a list \<Rightarrow> int \<Rightarrow> 'a list" where
  "slice_from xs start = drop (slice_bound start (length xs)) xs"

text \<open>
  \<open>secrets.token_bytes(n)\<close> takes the next \<open>n\<close> bytes of the system's random source,
  a stream that each call consumes; a negative \<open>n\<close> raises.
\<close>

definition token_bytes :: "int \<Rightarrow> byte stream \<Rightarrow> (error + bytes) \<times> byte stream" where
  "token_bytes n rnd =
     (if n < 0 then (Inl NegativeArgument, rnd)
      else (Inr (stake (nat n) rnd), sdrop (nat n) rnd))"

text \<open>
  The \<open>cryptography\<close> engine is a parameter of the model: one function for each
  primitive the key classes call, total and deterministic, with the engine's own
  exceptions as \<open>Inl\<close>.
  \<^item> \<open>mac_finalize mac hashalg key data\<close> is
    \<open>m = mac(key, hashalg); m.update(data); m.finalize()\<close>;
  \<^item> \<open>aead_encrypt alg_class key iv plaintext aad\<close> is
    \<open>alg_class(key).encrypt(iv, plaintext, aad)\<close>, and \<open>aead_decrypt\<close> likewise;
  \<^item> \<open>keywrap method wrapping_key data\<close> is \<open>method(wrapping_key, data)\<close>.
\<close>

datatype hash_alg = SHA256 | SHA384 | SHA512
datatype mac_class = HMAC
datatype aead_class = AESCCM | AESGCM
datatype keywrap_method = Aes_key_wrap | Aes_key_unwrap

record crypto_engine =
  mac_finalize :: "mac_class \<Rightarrow> hash_alg \<Rightarrow> bytes \<Rightarrow> bytes \<Rightarrow> bytes"
  aead_encrypt :: "aead_class \<Rightarrow> bytes \<Rightarrow> bytes \<Rightarrow> bytes \<Rightarrow> bytes option \<Rightarrow> error + bytes"
  aead_decrypt :: "aead_class \<Rightarrow> bytes \<Rightarrow> bytes \<Rightarrow> bytes \<Rightarrow> bytes option \<Rightarrow> error + bytes"
  keywrap :: "keywrap_method \<Rightarrow> bytes \<Rightarrow> bytes \<Rightarrow> error + bytes"

text \<open>
  Modelled from the spec: the base entity \<open>Jwk\<close> (\<open>base.py\<close> is not among the sources).
  A key is constructed from a named-parameter mapping and is represented by that
  mapping. Each variant declares a schema: parameter name to privacy flag, required
  flag and value kind. A key is valid only if its required parameters are present and
  each value decodes according to its declared kind; the private parameters may be
  absent, the key is then a public one.
\<close>

datatype param_kind = B64u | Name

record jwk_parameter =
  param_description :: string
  is_private :: bool
  is_required :: bool
  kind :: param_kind

fun Jwk_validate :: "(string \<times> jwk_parameter) list \<Rightarrow> pydict \<Rightarrow> error + unit" where
  "Jwk_validate [] self = Inr ()"
| "Jwk_validate ((name, param) # schema) self =
     (case map_of self name of
        None \<Rightarrow>
          if is_required param \<and> \<not> is_private param then Inl (StructuralValidationError name)
          else Jwk_validate schema self
      | Some v \<Rightarrow>
          (case kind param of
             Name \<Rightarrow> Jwk_validate schema self
           | B64u \<Rightarrow>
               (case b64u_decode v of
                  Inl e \<Rightarrow> Inl (StructuralValidationError name)
                | Inr decoded \<Rightarrow> Jwk_validate schema self)))"

text \<open>
  Modelled from the spec: reading a parameter as an attribute (\<open>self.k\<close>, \<open>self.x\<close>).
  A parameter the key does not hold cannot be read.
\<close>

definition getattr :: "pydict \<Rightarrow> string \<Rightarrow> error + string" where
  "getattr self name =
     (case map_of self name of None \<Rightarrow> Inl (StructuralValidationError name) | Some v \<Rightarrow> Inr v)"

text \<open>
  Modelled from the spec: the algorithm resolution helper (\<open>alg.py\<close> is not among the
  sources). An explicitly supplied algorithm wins and must belong to the supported set;
  else the key's own declared algorithm is used; no algorithm at all is an error where
  exactly one is needed. For verification the candidates are the explicit algorithm, else
  the caller's candidate list, else the key's declared algorithm, else the whole
  supported set in the table's order.
\<close>

definition get_alg :: "string option \<Rightarrow> string option \<Rightarrow> string list \<Rightarrow> error + string" where
  "get_alg key_alg alg supported_algs =
     (case alg of
        Some a \<Rightarrow> if a \<in> set supported_algs then Inr a else Inl (UnsupportedAlgorithm a)
      | None \<Rightarrow> (case key_alg of Some a \<Rightarrow> Inr a | None \<Rightarrow> Inl NoAlgorithmSpecified))"

definition get_algs ::
  "string option \<Rightarrow> string option \<Rightarrow> string list option \<Rightarrow> string list \<Rightarrow> error + string list" where
  "get_algs key_alg alg algs supported_algs =
     (case alg of
        Some a \<Rightarrow> if a \<in> set supported_algs then Inr [a] else Inl (UnsupportedAlgorithm a)
      | None \<Rightarrow>
          (case algs of
             Some candidates \<Rightarrow> Inr candidates
           | None \<Rightarrow> (case key_alg of Some a \<Rightarrow> Inr [a] | None \<Rightarrow> Inr supported_algs)))"

text \<open>
  Modelled from the spec: the curve registry and the EC signing algorithms
  (\<open>jwskate.jwa\<close> is not among the sources). The three NIST curves have coordinate sizes
  of 32, 48 and 66 bytes, secp256k1 of 32 bytes; each signing algorithm requires one
  curve.
\<close>

record EllipticCurve =
  curve_name :: string
  coordinate_size :: nat

definition P_256 :: EllipticCurve where
  "P_256 = \<lparr>curve_name = ''P-256'', coordinate_size = 32\<rparr>"

definition P_384 :: EllipticCurve where
  "P_384 = \<lparr>curve_name = ''P-384'', coordinate_size = 48\<rparr>"

definition P_521 :: EllipticCurve where
  "P_521 = \<lparr>curve_name = ''P-521'', coordinate_size = 66\<rparr>"

definition secp256k1 :: EllipticCurve where
  "secp256k1 = \<lparr>curve_name = ''secp256k1'', coordinate_size = 32\<rparr>"

record ECSignatureAlg =
  alg_name :: string
  alg_curve :: EllipticCurve

definition ES256 :: ECSignatureAlg where
  "ES256 = \<lparr>alg_name = ''ES256'', alg_curve = P_256\<rparr>"

definition ES384 :: ECSignatureAlg where
  "ES384 = \<lparr>alg_name = ''ES384'', alg_curve = P_384\<rparr>"

definition ES512 :: ECSignatureAlg where
  "ES512 = \<lparr>alg_name = ''ES512'', alg_curve = P_521\<rparr>"

definition ES256K :: ECSignatureAlg where
  "ES256K = \<lparr>alg_name = ''ES256K'', alg_curve = secp256k1\<rparr>"

text \<open>
  \<open>BinaPy\<close> is an external library, not among the sources.
  \<open>BinaPy.from_int(i, length)\<close> is \<open>i.to_bytes(length, "big")\<close> and
  \<open>encode_to("b64u")\<close> the unpadded base64url encoding: what \<open>int_to_bytes\<close> and
  \<open>b64u_encode\<close> of \<open>utils.py\<close> do. Its decoder \<open>decode_from("b64u")\<close> is a
  parameter of the model, \<open>decode_from\<close>: a function from the stored text to the decoded
  bytes, or to the error it raises. What it does with text that is not an encoding is
  left open; where a property needs it, the decoder is assumed to invert the encoding.
  \<open>to_int()\<close> is the big-endian value of the bytes.
\<close>

definition BinaPy_from_int_b64u :: "int \<Rightarrow> nat \<Rightarrow> error + string" where
  "BinaPy_from_int_b64u i len = int_to_b64u i (Some len)"

definition BinaPy_b64u_to_int :: "(string \<Rightarrow> error + bytes) \<Rightarrow> string \<Rightarrow> error + int" where
  "BinaPy_b64u_to_int decode_from v =
     (case decode_from v of Inl e \<Rightarrow> Inl e | Inr data \<Rightarrow> Inr (int_from_bytes data))"

section \<open>jwk/symetric.py\<close>

definition SymmetricJwk_PARAMS :: "(string \<times> jwk_parameter) list" where
  "SymmetricJwk_PARAMS =
     [(''k'', \<lparr>param_description = ''Key Value'', is_private = True, is_required = True, kind = B64u\<rparr>)]"

text \<open>name: (MAC, alg, min_key_size)\<close>

definition SymmetricJwk_SIGNATURE_ALGORITHMS :: "(string \<times> mac_class \<times> hash_alg \<times> int) list" where
  "SymmetricJwk_SIGNATURE_ALGORITHMS =
     [(''HS256'', HMAC, SHA256, 256),
      (''HS384'', HMAC, SHA384, 384),
      (''HS512'', HMAC, SHA512, 512)]"

text \<open>name: (description, wrap_method, unwrap_method, key_size)\<close>

definition SymmetricJwk_KEY_MANAGEMENT_ALGORITHMS ::
  "(string \<times> string \<times> keywrap_method \<times> keywrap_method \<times> int) list" where
  "SymmetricJwk_KEY_MANAGEMENT_ALGORITHMS =
     [(''A128KW'', ''AES Key Wrap with default initial value using 128-bit key'',
         Aes_key_wrap, Aes_key_unwrap, 128),
      (''A192KW'', ''AES Key Wrap with default initial value using 192-bit key'',
         Aes_key_wrap, Aes_key_unwrap, 192),
      (''A256KW'', ''AES Key Wrap with default initial value using 256-bit key'',
         Aes_key_wrap, Aes_key_unwrap, 256)]"

text \<open>name: (description, alg, key_size, iv_size, tag_size)\<close>

definition SymmetricJwk_ENCRYPTION_ALGORITHMS ::
  "(string \<times> string \<times> aead_class \<times> int \<times> int \<times> int) list" where
  "SymmetricJwk_ENCRYPTION_ALGORITHMS =
     [(''A128CBC-HS256'', ''AES_128_CBC_HMAC_SHA_256'', AESCCM, 128, 96, 16),
      (''A192CBC-HS384'', ''AES_192_CBC_HMAC_SHA_384'', AESCCM, 192, 96, 24),
      (''A256CBC-HS512'', ''AES_128_CBC_HMAC_SHA_256'', AESCCM, 256, 96, 32),
      (''A128GCM'', ''AES GCM using 128-bit key'', AESGCM, 128, 96, 16),
      (''A192GCM'', ''AES GCM using 192-bit key'', AESGCM, 192, 96, 16),
      (''A256GCM'', ''AES GCM using 256-bit key'', AESGCM, 256, 96, 16)]"

text \<open>
  Modelled from the spec: the constructor \<open>cls(params)\<close> and the supported-algorithm
  properties are inherited from the base entity. Construction validates the mapping
  against the schema; the supported algorithms are the identifiers of the variant's
  table, in the table's order.
\<close>

definition SymmetricJwk :: "pydict \<Rightarrow> error + pydict" where
  "SymmetricJwk params =
     (case Jwk_validate SymmetricJwk_PARAMS params of Inl e \<Rightarrow> Inl e | Inr u \<Rightarrow> Inr params)"

definition SymmetricJwk_supported_signing_algorithms :: "pydict \<Rightarrow> string list" where
  "SymmetricJwk_supported_signing_algorithms self = map fst SymmetricJwk_SIGNATURE_ALGORITHMS"

definition SymmetricJwk_supported_encryption_algorithms :: "pydict \<Rightarrow> string list" where
  "SymmetricJwk_supported_encryption_algorithms self = map fst SymmetricJwk_ENCRYPTION_ALGORITHMS"

definition SymmetricJwk_supported_key_management_algorithms :: "pydict \<Rightarrow> string list" where
  "SymmetricJwk_supported_key_management_algorithms self =
     map fst SymmetricJwk_KEY_MANAGEMENT_ALGORITHMS"

text \<open>
  \<open>from_bytes\<close>: the mapping \<open>dict(key="oct", k=b64u_encode(k), **params)\<close>, then the
  constructor applied to it.
\<close>

definition SymmetricJwk_from_bytes_dict :: "bytes \<Rightarrow> pydict \<Rightarrow> error + pydict" where
  "SymmetricJwk_from_bytes_dict k params =
     dict_kwargs [(''key'', ''oct''), (''k'', b64u_encode k False)] params"

definition SymmetricJwk_from_bytes :: "bytes \<Rightarrow> pydict \<Rightarrow> error + pydict" where
  "SymmetricJwk_from_bytes k params =
     (case SymmetricJwk_from_bytes_dict k params of
        Inl e \<Rightarrow> Inl e
      | Inr d \<Rightarrow> SymmetricJwk d)"

definition SymmetricJwk_generate ::
  "int \<Rightarrow> pydict \<Rightarrow> byte stream \<Rightarrow> (error + pydict) \<times> byte stream" where
  "SymmetricJwk_generate size_bytes params rnd =
     (case token_bytes size_bytes rnd of
        (Inl e, rnd') \<Rightarrow> (Inl e, rnd')
      | (Inr key, rnd') \<Rightarrow> (SymmetricJwk_from_bytes key params, rnd'))"

text \<open>
  \<open>generate_for_alg\<close> passes \<open>alg=alg, **params\<close> on: a \<open>TypeError\<close> when \<open>params\<close>
  holds \<open>alg\<close> already.
\<close>

definition SymmetricJwk_generate_for_alg ::
  "string \<Rightarrow> pydict \<Rightarrow> byte stream \<Rightarrow> (error + pydict) \<times> byte stream" where
  "SymmetricJwk_generate_for_alg alg params rnd =
     (case map_of SymmetricJwk_SIGNATURE_ALGORITHMS alg of
        Some (mac, hashalg, min_key_size) \<Rightarrow>
          (case dict_kwargs [(''alg'', alg)] params of
             Inl e \<Rightarrow> (Inl e, rnd)
           | Inr params' \<Rightarrow> SymmetricJwk_generate min_key_size params' rnd)
      | None \<Rightarrow>
          (case map_of SymmetricJwk_ENCRYPTION_ALGORITHMS alg of
             Some (description, alg_class, key_size, iv_size, tag_size) \<Rightarrow>
               (case dict_kwargs [(''alg'', alg)] params of
                  Inl e \<Rightarrow> (Inl e, rnd)
                | Inr params' \<Rightarrow> SymmetricJwk_generate key_size params' rnd)
           | None \<Rightarrow> (Inl (UnsupportedAlgorithm alg), rnd)))"

definition SymmetricJwk_key :: "pydict \<Rightarrow> error + bytes" where
  "SymmetricJwk_key self =
     (case getattr self ''k'' of Inl e \<Rightarrow> Inl e | Inr k \<Rightarrow> b64u_decode k)"

definition SymmetricJwk_key_size :: "pydict \<Rightarrow> error + int" where
  "SymmetricJwk_key_size self =
     (case SymmetricJwk_key self of Inl e \<Rightarrow> Inl e | Inr key \<Rightarrow> Inr (int (length key) * 8))"

definition SymmetricJwk_sign ::
  "crypto_engine \<Rightarrow> pydict \<Rightarrow> bytes \<Rightarrow> string option \<Rightarrow> error + bytes" where
  "SymmetricJwk_sign engine self data alg =
     (case get_alg (map_of self ''alg'') alg (SymmetricJwk_supported_signing_algorithms self) of
        Inl e \<Rightarrow> Inl e
      | Inr alg' \<Rightarrow>
          (case map_of SymmetricJwk_SIGNATURE_ALGORITHMS alg' of
             None \<Rightarrow> Inl (UnsupportedAlgorithm alg')
           | Some (mac, hashalg, min_key_size) \<Rightarrow>
               (case SymmetricJwk_key self of
                  Inl e \<Rightarrow> Inl e
                | Inr key \<Rightarrow> Inr (mac_finalize engine mac hashalg key data))))"

text \<open>The loop of \<open>verify\<close> over the candidate algorithms.\<close>

fun verify_loop :: "crypto_engine \<Rightarrow> pydict \<Rightarrow> bytes \<Rightarrow> bytes \<Rightarrow> string list \<Rightarrow> error + bool" where
  "verify_loop engine self data signature [] = Inr False"
| "verify_loop engine self data signature (alg # algs) =
     (case map_of SymmetricJwk_SIGNATURE_ALGORITHMS alg of
        None \<Rightarrow> Inl (UnsupportedAlgorithm alg)
      | Some (mac, hashalg, min_key_size) \<Rightarrow>
          (case SymmetricJwk_key self of
             Inl e \<Rightarrow> Inl e
           | Inr key \<Rightarrow>
               (let candidate_signature = mac_finalize engine mac hashalg key data
                in if signature = candidate_signature then Inr True
                   else verify_loop engine self data signature algs)))"

definition SymmetricJwk_verify ::
  "crypto_engine \<Rightarrow> pydict \<Rightarrow> bytes \<Rightarrow> bytes \<Rightarrow> string option \<Rightarrow> string list option
     \<Rightarrow> error + bool" where
  "SymmetricJwk_verify engine self data signature alg algs =
     (case get_algs (map_of self ''alg'') alg algs (SymmetricJwk_supported_signing_algorithms self) of
        Inl e \<Rightarrow> Inl e
      | Inr candidates \<Rightarrow> verify_loop engine self data signature candidates)"

definition SymmetricJwk_encrypt ::
  "crypto_engine \<Rightarrow> pydict \<Rightarrow> bytes \<Rightarrow> bytes option \<Rightarrow> string option \<Rightarrow> bytes option
     \<Rightarrow> byte stream \<Rightarrow> (error + bytes \<times> bytes \<times> bytes) \<times> byte stream" where
  "SymmetricJwk_encrypt engine self plaintext aad alg iv rnd =
     (case get_alg (map_of self ''alg'') alg (SymmetricJwk_supported_encryption_algorithms self) of
        Inl e \<Rightarrow> (Inl e, rnd)
      | Inr alg' \<Rightarrow>
          (case map_of SymmetricJwk_ENCRYPTION_ALGORITHMS alg' of
             None \<Rightarrow> (Inl (KeyError alg'), rnd)
           | Some (description, alg_class, key_size, iv_size, tag_size) \<Rightarrow>
               (case SymmetricJwk_key_size self of
                  Inl e \<Rightarrow> (Inl e, rnd)
                | Inr self_key_size \<Rightarrow>
                    if self_key_size \<noteq> key_size
                    then (Inl (KeySizeMismatch self_key_size key_size), rnd)
                    else
                      (case (case iv of
                               None \<Rightarrow> token_bytes iv_size rnd
                             | Some iv' \<Rightarrow> (Inr iv', rnd)) of
                         (Inl e, rnd') \<Rightarrow> (Inl e, rnd')
                       | (Inr iv', rnd') \<Rightarrow>
                           (case SymmetricJwk_key self of
                              Inl e \<Rightarrow> (Inl e, rnd')
                            | Inr key \<Rightarrow>
                                (case aead_encrypt engine alg_class key iv' plaintext aad of
                                   Inl e \<Rightarrow> (Inl e, rnd')
                                 | Inr cyphertext_with_tag \<Rightarrow>
                                     (Inr (slice_to cyphertext_with_tag (- tag_size),
                                           slice_from cyphertext_with_tag (- tag_size),
                                           iv'), rnd')))))))"

definition SymmetricJwk_decrypt ::
  "crypto_engine \<Rightarrow> pydict \<Rightarrow> bytes \<Rightarrow> bytes \<Rightarrow> bytes \<Rightarrow> bytes option \<Rightarrow> string option
     \<Rightarrow> error + bytes" where
  "SymmetricJwk_decrypt engine self cyphertext tag iv aad alg =
     (case get_alg (map_of self ''alg'') alg (SymmetricJwk_supported_encryption_algorithms self) of
        Inl e \<Rightarrow> Inl e
      | Inr alg' \<Rightarrow>
          (case map_of SymmetricJwk_ENCRYPTION_ALGORITHMS alg' of
             None \<Rightarrow> Inl (KeyError alg')
           | Some (description, alg_class, key_size, iv_size, tag_size) \<Rightarrow>
               (case SymmetricJwk_key_size self of
                  Inl e \<Rightarrow> Inl e
                | Inr self_key_size \<Rightarrow>
                    if self_key_size \<noteq> key_size
                    then Inl (KeySizeMismatch self_key_size key_size)
                    else
                      (case SymmetricJwk_key self of
                         Inl e \<Rightarrow> Inl e
                       | Inr key \<Rightarrow>
                           aead_decrypt engine alg_class key iv (cyphertext @ tag) aad))))"

definition SymmetricJwk_wrap_key ::
  "crypto_engine \<Rightarrow> pydict \<Rightarrow> bytes \<Rightarrow> string option \<Rightarrow> error + bytes" where
  "SymmetricJwk_wrap_key engine self key alg =
     (case get_alg (map_of self ''alg'') alg
             (SymmetricJwk_supported_key_management_algorithms self) of
        Inl e \<Rightarrow> Inl e
      | Inr alg' \<Rightarrow>
          (case map_of SymmetricJwk_KEY_MANAGEMENT_ALGORITHMS alg' of
             None \<Rightarrow> Inl (KeyError alg')
           | Some (description, wrap_method, unwrap_method, key_size) \<Rightarrow>
               (case SymmetricJwk_key_size self of
                  Inl e \<Rightarrow> Inl e
                | Inr self_key_size \<Rightarrow>
                    if self_key_size \<noteq> key_size
                    then Inl (KeySizeMismatch self_key_size key_size)
                    else
                      (case SymmetricJwk_key self of
                         Inl e \<Rightarrow> Inl e
                       | Inr self_key \<Rightarrow> keywrap engine wrap_method self_key key))))"

definition SymmetricJwk_unwrap_key ::
  "crypto_engine \<Rightarrow> pydict \<Rightarrow> bytes \<Rightarrow> string option \<Rightarrow> error + bytes" where
  "SymmetricJwk_unwrap_key engine self cypherkey alg =
     (case get_alg (map_of self ''alg'') alg
             (SymmetricJwk_supported_key_management_algorithms self) of
        Inl e \<Rightarrow> Inl e
      | Inr alg' \<Rightarrow>
          (case map_of SymmetricJwk_KEY_MANAGEMENT_ALGORITHMS alg' of
             None \<Rightarrow> Inl (KeyError alg')
           | Some (description, wrap_method, unwrap_method, key_size) \<Rightarrow>
               (case SymmetricJwk_key_size self of
                  Inl e \<Rightarrow> Inl e
                | Inr self_key_size \<Rightarrow>
                    if self_key_size \<noteq> key_size
                    then Inl (KeySizeMismatch self_key_size key_size)
                    else
                      (case SymmetricJwk_key self of
                         Inl e \<Rightarrow> Inl e
                       | Inr self_key \<Rightarrow> keywrap engine unwrap_method self_key cypherkey))))"

section \<open>jwk/ec.py\<close>

definition ECJwk_PARAMS :: "(string \<times> jwk_parameter) list" where
  "ECJwk_PARAMS =
     [(''crv'', \<lparr>param_description = ''Curve'', is_private = False, is_required = True, kind = Name\<rparr>),
      (''x'', \<lparr>param_description = ''X Coordinate'', is_private = False, is_required = True, kind = B64u\<rparr>),
      (''y'', \<lparr>param_description = ''Y Coordinate'', is_private = False, is_required = True, kind = B64u\<rparr>),
      (''d'', \<lparr>param_description = ''ECC Private Key'', is_private = True, is_required = True, kind = B64u\<rparr>)]"

definition ECJwk_CURVES :: "(string \<times> EllipticCurve) list" where
  "ECJwk_CURVES = map (\<lambda>curve. (curve_name curve, curve)) [P_256, P_384, P_521, secp256k1]"

definition ECJwk_SIGNATURE_ALGORITHMS :: "(string \<times> ECSignatureAlg) list" where
  "ECJwk_SIGNATURE_ALGORITHMS = map (\<lambda>sigalg. (alg_name sigalg, sigalg)) [ES256, ES384, ES512, ES256K]"

text \<open>
  \<open>_validate\<close>: a missing \<open>crv\<close> is \<open>None\<close>, not a string, and is rejected like an
  unregistered name; then the base entity's validation runs.
\<close>

definition ECJwk_validate :: "pydict \<Rightarrow> error + unit" where
  "ECJwk_validate self =
     (case map_of self ''crv'' of
        None \<Rightarrow> Inl (UnsupportedCurve ''None'')
      | Some crv \<Rightarrow>
          if crv \<notin> set (map fst ECJwk_CURVES) then Inl (UnsupportedCurve crv)
          else Jwk_validate ECJwk_PARAMS self)"

text \<open>
  Modelled from the spec: the constructor \<open>cls(params)\<close> is inherited from the base
  entity; it validates the key and keeps the mapping.
\<close>

definition ECJwk :: "pydict \<Rightarrow> error + pydict" where
  "ECJwk params = (case ECJwk_validate params of Inl e \<Rightarrow> Inl e | Inr u \<Rightarrow> Inr params)"

definition ECJwk_get_curve :: "string \<Rightarrow> error + EllipticCurve" where
  "ECJwk_get_curve crv =
     (case map_of ECJwk_CURVES crv of None \<Rightarrow> Inl (UnsupportedCurve crv) | Some c \<Rightarrow> Inr c)"

definition ECJwk_curve :: "pydict \<Rightarrow> error + EllipticCurve" where
  "ECJwk_curve self =
     (case map_of self ''crv'' of
        None \<Rightarrow> Inl (UnsupportedCurve ''None'')
      | Some crv \<Rightarrow> ECJwk_get_curve crv)"

text \<open>
  \<open>public\<close>: the mapping \<open>dict(key="EC", crv=crv, x=..., y=..., **params)\<close>, then the
  constructor applied to it; \<open>private\<close>: the mapping
  \<open>dict(kty="EC", crv=crv, x=..., y=..., d=..., **params)\<close>, then the constructor.
  The coordinates are encoded in the order of the keywords, an integer that does not fit
  the curve's coordinate size raises. \<open>public\<close> stores the encoded bytes and \<open>private\<close>
  their ASCII text; both are the same \<open>string\<close> here.
\<close>

definition ECJwk_public_dict :: "string \<Rightarrow> int \<Rightarrow> int \<Rightarrow> pydict \<Rightarrow> error + pydict" where
  "ECJwk_public_dict crv x y params =
     (case ECJwk_get_curve crv of
        Inl e \<Rightarrow> Inl e
      | Inr c \<Rightarrow>
          (let coord_size = coordinate_size c
           in case BinaPy_from_int_b64u x coord_size of
                Inl e \<Rightarrow> Inl e
              | Inr x' \<Rightarrow>
                  (case BinaPy_from_int_b64u y coord_size of
                     Inl e \<Rightarrow> Inl e
                   | Inr y' \<Rightarrow>
                       dict_kwargs [(''key'', ''EC''), (''crv'', crv), (''x'', x'), (''y'', y')]
                         params)))"

definition ECJwk_public :: "string \<Rightarrow> int \<Rightarrow> int \<Rightarrow> pydict \<Rightarrow> error + pydict" where
  "ECJwk_public crv x y params =
     (case ECJwk_public_dict crv x y params of Inl e \<Rightarrow> Inl e | Inr d \<Rightarrow> ECJwk d)"

definition ECJwk_private_dict :: "string \<Rightarrow> int \<Rightarrow> int \<Rightarrow> int \<Rightarrow> pydict \<Rightarrow> error + pydict" where
  "ECJwk_private_dict crv x y d params =
     (case ECJwk_get_curve crv of
        Inl e \<Rightarrow> Inl e
      | Inr c \<Rightarrow>
          (let coord_size = coordinate_size c
           in case BinaPy_from_int_b64u x coord_size of
                Inl e \<Rightarrow> Inl e
              | Inr x' \<Rightarrow>
                  (case BinaPy_from_int_b64u y coord_size of
                     Inl e \<Rightarrow> Inl e
                   | Inr y' \<Rightarrow>
                       (case BinaPy_from_int_b64u d coord_size of
                          Inl e \<Rightarrow> Inl e
                        | Inr d' \<Rightarrow>
                            dict_kwargs
                              [(''kty'', ''EC''), (''crv'', crv), (''x'', x'), (''y'', y'), (''d'', d')]
                              params))))"

definition ECJwk_private :: "string \<Rightarrow> int \<Rightarrow> int \<Rightarrow> int \<Rightarrow> pydict \<Rightarrow> error + pydict" where
  "ECJwk_private crv x y d params =
     (case ECJwk_private_dict crv x y d params of Inl e \<Rightarrow> Inl e | Inr p \<Rightarrow> ECJwk p)"

definition ECJwk_coordinate_size :: "pydict \<Rightarrow> error + nat" where
  "ECJwk_coordinate_size self =
     (case ECJwk_curve self of Inl e \<Rightarrow> Inl e | Inr c \<Rightarrow> Inr (coordinate_size c))"

definition ECJwk_x_coordinate :: "(string \<Rightarrow> error + bytes) \<Rightarrow> pydict \<Rightarrow> error + int" where
  "ECJwk_x_coordinate decode_from self =
     (case getattr self ''x'' of Inl e \<Rightarrow> Inl e | Inr x \<Rightarrow> BinaPy_b64u_to_int decode_from x)"

definition ECJwk_y_coordinate :: "(string \<Rightarrow> error + bytes) \<Rightarrow> pydict \<Rightarrow> error + int" where
  "ECJwk_y_coordinate decode_from self =
     (case getattr self ''y'' of Inl e \<Rightarrow> Inl e | Inr y \<Rightarrow> BinaPy_b64u_to_int decode_from y)"

definition ECJwk_ecc_private_key :: "(string \<Rightarrow> error + bytes) \<Rightarrow> pydict \<Rightarrow> error + int" where
  "ECJwk_ecc_private_key decode_from self =
     (case getattr self ''d'' of Inl e \<Rightarrow> Inl e | Inr d \<Rightarrow> BinaPy_b64u_to_int decode_from d)"

text \<open>
  \<open>supported_signing_algorithms\<close>: the comprehension reads \<open>self.curve\<close> for each entry
  of the table, so an unsupported curve raises.
\<close>

definition ECJwk_supported_signing_algorithms :: "pydict \<Rightarrow> error + string list" where
  "ECJwk_supported_signing_algorithms self =
     (case ECJwk_curve self of
        Inl e \<Rightarrow> Inl e
      | Inr self_curve \<Rightarrow>
          Inr (map fst (filter (\<lambda>(name, alg). alg_curve alg = self_curve) ECJwk_SIGNATURE_ALGORITHMS)))"

section \<open>Example data\<close>

text \<open>
  A small engine and a key with the one-byte secret \<open>01\<close>, for evaluating the
  operations on concrete inputs.
\<close>

definition example_engine :: crypto_engine where
  "example_engine =
     \<lparr>mac_finalize = (\<lambda>mac hashalg key data. key @ data),
      aead_encrypt = (\<lambda>alg_class key iv plaintext aad.
         Inr (plaintext @ take 16 (key @ iv @ replicate 16 0))),
      aead_decrypt = (\<lambda>alg_class key iv data aad.
         if drop (length data - 16) data \<noteq> take 16 (key @ iv @ replicate 16 0)
         then Inl (PrimitiveError ''InvalidTag'')
         else Inr (take (length data - 16) data)),
      keywrap = (\<lambda>method wrapping_key data. Inr (wrapping_key @ data))\<rparr>"

definition example_key :: pydict where
  "example_key = [(''key'', ''oct''), (''k'', ''AQ'')]"

text \<open>
  Keys with the same one-byte secret that declare their algorithm in the \<open>alg\<close>
  parameter.
\<close>

definition example_key_HS512 :: pydict where
  "example_key_HS512 = [(''key'', ''oct''), (''k'', ''AQ''), (''alg'', ''HS512'')]"

definition example_key_A128GCM :: pydict where
  "example_key_A128GCM = [(''key'', ''oct''), (''k'', ''AQ''), (''alg'', ''A128GCM'')]"

definition example_key_A256KW :: pydict where
  "example_key_A256KW = [(''key'', ''oct''), (''k'', ''AQ''), (''alg'', ''A256KW'')]"

text \<open>A key with a secret of sixteen bytes \<open>01\<close>: 128 bits.\<close>

definition example_key_128 :: pydict where
  "example_key_128 = [(''key'', ''oct''), (''k'', ''AQEBAQEBAQEBAQEBAQEBAQ'')]"

text \<open>
  A strict decoder for the parameter \<open>decode_from\<close>: it raises on every character
  outside the base64url alphabet, the padding character included, and decodes the rest.
\<close>

definition urlsafe_alphabet :: string where
  "urlsafe_alphabet = map urlsafe_encode_translation table_b2a_base64"

definition example_decoder :: "string \<Rightarrow> error + bytes" where
  "example_decoder v =
     (if list_all (\<lambda>c. c \<in> set urlsafe_alphabet) v then b64u_decode v
      else Inl (PrimitiveError ''not base64url''))"

text \<open>
  An EC key on P-256 whose three stored coordinates are each \<open>AQ\<close>, the encoding of
  the single byte \<open>01\<close>.
\<close>

definition example_short_coordinates :: pydict where
  "example_short_coordinates =
     [(''kty'', ''EC''), (''crv'', ''P-256''), (''x'', ''AQ''), (''y'', ''AQ''), (''d'', ''AQ'')]"

section \<open>Properties of the encoding helpers\<close>

lemma distinct_table_b2a_base64: "distinct table_b2a_base64"
  unfolding table_b2a_base64_def by simp

lemma length_table_b2a_base64: "length table_b2a_base64 = 64"
  unfolding table_b2a_base64_def by simp

lemma index_from_nth:
  "distinct xs \<Longrightarrow> i < length xs \<Longrightarrow> index_from k (xs ! i) xs = Some (k + i)"
proof (induction xs arbitrary: i k)
  case (Cons x xs)
  then have later: "\<And>j. i = Suc j \<Longrightarrow> index_from (Suc k) (xs ! j) xs = Some (Suc k + j)"
    by simp
  from Cons.prems have "\<And>j. i = Suc j \<Longrightarrow> x \<noteq> xs ! j"
    by (metis Suc_less_eq distinct.simps(2) length_Cons nth_mem)
  with later show ?case
    by (cases i) simp_all
qed simp

lemma and_3f_eq: "(x::byte) AND 0x3f = take_bit 6 x"
  by (simp add: take_bit_eq_mask mask_eq_exp_minus_1)

lemma and_0f_eq: "(x::byte) AND 0x0f = take_bit 4 x"
  by (simp add: take_bit_eq_mask mask_eq_exp_minus_1)

lemma and_03_eq: "(x::byte) AND 0x03 = take_bit 2 x"
  by (simp add: take_bit_eq_mask mask_eq_exp_minus_1)

lemma unat_and_3f: "unat ((v::byte) AND 0x3f) < 64"
proof -
  have "unat (take_bit 6 v) = take_bit 6 (unat v)"
    by (simp add: unsigned_take_bit_eq)
  moreover have "take_bit 6 (unat v) < 2 ^ 6"
    by (rule take_bit_nat_less_exp)
  ultimately show ?thesis
    by (simp add: and_3f_eq)
qed

lemma b2a_char_in_table: "b2a_char v \<in> set table_b2a_base64"
  using unat_and_3f [of v] by (simp add: b2a_char_def length_table_b2a_base64)

lemma a2b_b2a_char: "table_a2b_base64 (b2a_char v) = Some (v AND 0x3f)"
proof -
  from unat_and_3f [of v] have "unat (v AND 0x3f) < length table_b2a_base64"
    by (simp add: length_table_b2a_base64)
  from index_from_nth [OF distinct_table_b2a_base64 this, of 0] show ?thesis
    by (simp add: table_a2b_base64_def b2a_char_def)
qed

lemma table_translation:
  "\<forall>c \<in> set table_b2a_base64.
     urlsafe_decode_translation (urlsafe_encode_translation c) = c
     \<and> urlsafe_encode_translation c \<noteq> BASE64_PAD
     \<and> c \<noteq> BASE64_PAD
     \<and> is_ascii (urlsafe_encode_translation c)"
  unfolding table_b2a_base64_def urlsafe_decode_translation_def urlsafe_encode_translation_def
    BASE64_PAD_def is_ascii_def
  by simp

lemma bit_position_cases:
  assumes "i < 8"
  shows "i \<in> {7, 6, 5, 4, 3, 2, 1, 0::nat}"
  using assms by auto

lemma bit_byte_high: "8 \<le> n \<Longrightarrow> bit (b::byte) n = False"
  by (auto dest: bit_imp_le_length)

lemma first_byte:
  "push_bit 2 (drop_bit 2 (a::byte) AND 0x3f)
     OR drop_bit 4 ((push_bit 4 (a AND 0x03) OR drop_bit 4 b) AND 0x3f) = a"
  unfolding and_3f_eq and_0f_eq and_03_eq
proof (rule bit_word_eqI)
  fix n assume "n < LENGTH(8)"
  then have "n < 8" by simp
  then have "n \<in> {7, 6, 5, 4, 3, 2, 1, 0}" by (rule bit_position_cases)
  then
  show "bit (push_bit 2 (take_bit 6 (drop_bit 2 a))
           OR drop_bit 4 (take_bit 6 (push_bit 4 (take_bit 2 a) OR drop_bit 4 b))) n = bit a n"
    by (elim insertE emptyE) (simp_all add: bit_simps bit_byte_high)
qed

lemma second_byte:
  "push_bit 4 (((push_bit 4 (a AND 0x03) OR drop_bit 4 b) AND 0x3f) AND 0x0f)
     OR drop_bit 2 ((push_bit 2 (b AND 0x0f) OR drop_bit 6 c) AND 0x3f) = (b::byte)"
  unfolding and_3f_eq and_0f_eq and_03_eq
proof (rule bit_word_eqI)
  fix n assume "n < LENGTH(8)"
  then have "n < 8" by simp
  then have "n \<in> {7, 6, 5, 4, 3, 2, 1, 0}" by (rule bit_position_cases)
  then
  show "bit (push_bit 4 (take_bit 4 (take_bit 6 (push_bit 4 (take_bit 2 a) OR drop_bit 4 b)))
           OR drop_bit 2 (take_bit 6 (push_bit 2 (take_bit 4 b) OR drop_bit 6 c))) n = bit b n"
    by (elim insertE emptyE) (simp_all add: bit_simps bit_byte_high)
qed

lemma third_byte:
  "push_bit 6 (((push_bit 2 (b AND 0x0f) OR drop_bit 6 c) AND 0x3f) AND 0x03)
     OR (c AND 0x3f) = (c::byte)"
  unfolding and_3f_eq and_0f_eq and_03_eq
proof (rule bit_word_eqI)
  fix n assume "n < LENGTH(8)"
  then have "n < 8" by simp
  then have "n \<in> {7, 6, 5, 4, 3, 2, 1, 0}" by (rule bit_position_cases)
  then
  show "bit (push_bit 6 (take_bit 2 (take_bit 6 (push_bit 2 (take_bit 4 b) OR drop_bit 6 c)))
           OR take_bit 6 c) n = bit c n"
    by (elim insertE emptyE) (simp_all add: bit_simps bit_byte_high)
qed

lemma first_byte_last: 
  "push_bit 2 (drop_bit 2 (a::byte) AND 0x3f) OR drop_bit 4 (push_bit 4 (a AND 0x03) AND 0x3f) = a"
  using first_byte [of a 0] by simp

lemma second_byte_last:
  "push_bit 4 (((push_bit 4 (a AND 0x03) OR drop_bit 4 b) AND 0x3f) AND 0x0f)
     OR drop_bit 2 (push_bit 2 (b AND 0x0f) AND 0x3f) = (b::byte)"
  using second_byte [of a b 0] by simp

lemma enc_char:
  "urlsafe_encode_translation (b2a_char v) \<noteq> BASE64_PAD"
  "urlsafe_decode_translation (urlsafe_encode_translation (b2a_char v)) = b2a_char v"
  "b2a_char v \<noteq> BASE64_PAD"
  "is_ascii (urlsafe_encode_translation (b2a_char v))"
  using table_translation b2a_char_in_table [of v] by blast+

lemma decode_translation_pad: "urlsafe_decode_translation BASE64_PAD = BASE64_PAD"
  by (simp add: urlsafe_decode_translation_def BASE64_PAD_def)

lemma is_ascii_pad: "is_ascii BASE64_PAD"
  by (simp add: is_ascii_def BASE64_PAD_def)

lemma rstrip_pad_Cons: "x \<noteq> BASE64_PAD \<Longrightarrow> rstrip_pad (x # xs) = x # rstrip_pad xs"
  by (simp add: rstrip_pad_def dropWhile_append)

lemma rstrip_pad_only: "rstrip_pad [] = []" "rstrip_pad [BASE64_PAD] = []"
  "rstrip_pad [BASE64_PAD, BASE64_PAD] = []"
  by (simp_all add: rstrip_pad_def)


lemma a2b_loop_quad:
  "a2b_loop 0 l p (b2a_char s1 # b2a_char s2 # b2a_char s3 # b2a_char s4 # cs) out =
     a2b_loop 0 0 0 cs (out @
       [push_bit 2 (s1 AND 0x3f) OR drop_bit 4 (s2 AND 0x3f),
        push_bit 4 ((s2 AND 0x3f) AND 0x0f) OR drop_bit 2 (s3 AND 0x3f),
        push_bit 6 ((s3 AND 0x3f) AND 0x03) OR (s4 AND 0x3f)])"
  by (simp add: enc_char a2b_b2a_char)

lemma a2b_loop_triple:
  "a2b_loop 0 l p [b2a_char s1, b2a_char s2, b2a_char s3, BASE64_PAD, BASE64_PAD, BASE64_PAD] out =
     Inr (out @
       [push_bit 2 (s1 AND 0x3f) OR drop_bit 4 (s2 AND 0x3f),
        push_bit 4 ((s2 AND 0x3f) AND 0x0f) OR drop_bit 2 (s3 AND 0x3f)])"
  by (simp add: enc_char a2b_b2a_char)

lemma a2b_loop_pair:
  "a2b_loop 0 l p [b2a_char s1, b2a_char s2, BASE64_PAD, BASE64_PAD] out =
     Inr (out @ [push_bit 2 (s1 AND 0x3f) OR drop_bit 4 (s2 AND 0x3f)])"
  by (simp add: enc_char a2b_b2a_char)

text \<open>One complete group of four characters gives back its three bytes.\<close>

lemma a2b_loop_group:
  "a2b_loop 0 l p (b2a_char (drop_bit 2 a)
     # b2a_char (push_bit 4 (a AND 0x03) OR drop_bit 4 b)
     # b2a_char (push_bit 2 (b AND 0x0f) OR drop_bit 6 c)
     # b2a_char c # cs) out = a2b_loop 0 0 0 cs (out @ [a, b, c])"
  by (simp only: a2b_loop_quad first_byte second_byte third_byte)

lemma a2b_loop_two:
  "a2b_loop 0 l p [b2a_char (drop_bit 2 a),
      b2a_char (push_bit 4 (a AND 0x03) OR drop_bit 4 b),
      b2a_char (push_bit 2 (b AND 0x0f)), BASE64_PAD, BASE64_PAD, BASE64_PAD] out = Inr (out @ [a, b])"
  by (simp only: a2b_loop_triple first_byte second_byte_last)

lemma a2b_loop_one:
  "a2b_loop 0 l p [b2a_char (drop_bit 2 a),
      b2a_char (push_bit 4 (a AND 0x03)), BASE64_PAD, BASE64_PAD] out = Inr (out @ [a])"
  by (simp only: a2b_loop_pair first_byte_last)

lemma replicate_pad: "replicate 2 x = [x, x]" "replicate 3 x = [x, x, x]"
  by (simp_all add: numeral_2_eq_2 numeral_3_eq_3)

lemma add_padding_Cons4: "add_padding (c1 # c2 # c3 # c4 # cs) = c1 # c2 # c3 # c4 # add_padding cs"
proof -
  have "length (c1 # c2 # c3 # c4 # cs) = length cs + 4" by simp
  then have "length (c1 # c2 # c3 # c4 # cs) mod 4 = length cs mod 4" by (simp only: mod_add_self2)
  then show ?thesis unfolding add_padding_def Let_def by (simp del: length_Cons list.size)
qed

lemma add_padding_Nil: "add_padding [] = []" 
  by (simp add: add_padding_def)

lemma add_padding_two: "add_padding [c1, c2] = [c1, c2, BASE64_PAD, BASE64_PAD]"
proof -
  have "length [c1, c2] mod 4 = 2" by simp
  then show ?thesis unfolding add_padding_def Let_def by (simp only: replicate_pad) simp
qed

lemma add_padding_three: "add_padding [c1, c2, c3] = [c1, c2, c3, BASE64_PAD, BASE64_PAD, BASE64_PAD]"
proof -
  have "length [c1, c2, c3] mod 4 = 3" by simp
  then show ?thesis unfolding add_padding_def Let_def by (simp only: replicate_pad) simp
qed


lemma encode_translation_pad: "urlsafe_encode_translation BASE64_PAD = BASE64_PAD"
  by (simp add: urlsafe_encode_translation_def BASE64_PAD_def)

lemmas strip_simps = urlsafe_b64encode_def b2a_base64.simps list.map rstrip_pad_Cons enc_char
  rstrip_pad_only encode_translation_pad simp_thms

lemma decode_encode_loop:
  "a2b_loop 0 0 0 (map urlsafe_decode_translation (add_padding (rstrip_pad (urlsafe_b64encode bs)))) out
     = Inr (out @ bs)"
proof (induction bs arbitrary: out rule: b2a_base64.induct)
  case (1 a b c rest)
  have "a2b_loop 0 0 0 (map urlsafe_decode_translation
          (add_padding (rstrip_pad (urlsafe_b64encode (a # b # c # rest))))) out
        = a2b_loop 0 0 0 (map urlsafe_decode_translation
          (add_padding (rstrip_pad (urlsafe_b64encode rest)))) (out @ [a, b, c])"
    by (simp only: strip_simps add_padding_Cons4 a2b_loop_group)
  with 1 show ?case by simp
next
  case (2 a b)
  show ?case
    by (simp only: strip_simps add_padding_three decode_translation_pad a2b_loop_two)
next
  case (3 a)
  show ?case
    by (simp only: strip_simps add_padding_two decode_translation_pad a2b_loop_one)
next
  case 4
  show ?case
    by (simp add: urlsafe_b64encode_def rstrip_pad_only add_padding_Nil)
qed

lemma ascii_encoded: "list_all is_ascii (rstrip_pad (urlsafe_b64encode bs))"
proof (induction bs rule: b2a_base64.induct)
  case (1 a b c rest)
  then show ?case by (simp only: strip_simps list.pred_inject)
next
  case (2 a b)
  show ?case by (simp only: strip_simps list.pred_inject)
next
  case (3 a)
  show ?case by (simp only: strip_simps list.pred_inject)
next
  case 4
  show ?case by (simp only: strip_simps list.pred_inject)
qed

lemma b64u_decode_encode: "b64u_decode (b64u_encode b False) = Inr b"
  using decode_encode_loop [of b "[]"] ascii_encoded [of b]
  by (simp add: b64u_decode_def b64u_encode_def urlsafe_b64decode_def a2b_base64_def)

section \<open>Properties of the symmetric key\<close>

lemma get_alg_explicit:
  "map_of table a = Some v \<Longrightarrow> get_alg key_alg (Some a) (map fst table) = Inr a"
  by (auto simp: get_alg_def dest!: map_of_SomeD intro: rev_image_eqI)

lemma get_algs_explicit:
  "map_of table a = Some v \<Longrightarrow> get_algs key_alg (Some a) algs (map fst table) = Inr [a]"
  by (auto simp: get_algs_def dest!: map_of_SomeD intro: rev_image_eqI)

lemma map_of_None_iff: "(map_of table a = None) = (a \<notin> set (map fst table))"
  by (simp add: map_of_eq_None_iff)

lemma SymmetricJwk_key_stored:
  "map_of self ''k'' = Some (b64u_encode kb False) \<Longrightarrow> SymmetricJwk_key self = Inr kb"
  by (simp add: SymmetricJwk_key_def getattr_def b64u_decode_encode)

lemma SymmetricJwk_key_size_stored:
  "SymmetricJwk_key self = Inr kb \<Longrightarrow> SymmetricJwk_key_size self = Inr (int (length kb) * 8)"
  by (simp add: SymmetricJwk_key_size_def)

lemma SymmetricJwk_from_bytes_ok:
  assumes "''key'' \<notin> set (map fst params)" and "''k'' \<notin> set (map fst params)"
  shows "SymmetricJwk_from_bytes kb params
           = Inr ((''key'', ''oct'') # (''k'', b64u_encode kb False) # params)"
  using assms
  by (simp add: SymmetricJwk_from_bytes_def SymmetricJwk_from_bytes_dict_def dict_kwargs_def
      SymmetricJwk_def SymmetricJwk_PARAMS_def b64u_decode_encode)

lemma a2b_loop_error:
  "a2b_loop quad_pos leftchar pads s out = Inl e \<Longrightarrow> e = BinasciiError"
  by (induction quad_pos leftchar pads s out rule: a2b_loop.induct)
     (auto split: if_splits option.splits)

lemma b64u_decode_error:
  "b64u_decode v = Inl e \<Longrightarrow> e = UnicodeEncodeError \<or> e = BinasciiError"
  by (auto simp: b64u_decode_def urlsafe_b64decode_def a2b_base64_def
      split: if_splits dest: a2b_loop_error)

lemma SymmetricJwk_key_error:
  "SymmetricJwk_key self = Inl e \<Longrightarrow>
     e = StructuralValidationError ''k'' \<or> e = UnicodeEncodeError \<or> e = BinasciiError"
  by (auto simp: SymmetricJwk_key_def getattr_def split: option.splits dest: b64u_decode_error)

lemma sign_resolved:
  "SymmetricJwk_sign engine self data alg =
     (case get_alg (map_of self ''alg'') alg (map fst SymmetricJwk_SIGNATURE_ALGORITHMS) of
        Inl e \<Rightarrow> Inl e
      | Inr a \<Rightarrow>
          (case map_of SymmetricJwk_SIGNATURE_ALGORITHMS a of
             None \<Rightarrow> Inl (UnsupportedAlgorithm a)
           | Some (mac, hashalg, min_key_size) \<Rightarrow>
               map_sum id (\<lambda>key. mac_finalize engine mac hashalg key data) (SymmetricJwk_key self)))"
  by (simp add: SymmetricJwk_sign_def SymmetricJwk_supported_signing_algorithms_def
      split: sum.splits option.splits)

lemma verify_loop_False:
  assumes "SymmetricJwk_key self = Inr kb"
    and "\<forall>a \<in> set candidates. \<exists>mac hashalg min_key_size.
           map_of SymmetricJwk_SIGNATURE_ALGORITHMS a = Some (mac, hashalg, min_key_size)
           \<and> mac_finalize engine mac hashalg kb data \<noteq> signature"
  shows "verify_loop engine self data signature candidates = Inr False"
  using assms by (induction candidates) auto

lemma encryption_table_entry:
  assumes "map_of SymmetricJwk_ENCRYPTION_ALGORITHMS a
             = Some (description, alg_class, key_size, iv_size, tag_size)"
  shows "iv_size = 96" and "0 < tag_size"
  using assms
  by (auto simp: SymmetricJwk_ENCRYPTION_ALGORITHMS_def split: if_splits)

lemma slice_split:
  "0 < t \<Longrightarrow> slice_to xs (- t) = take (length xs - nat t) xs"
  "0 < t \<Longrightarrow> slice_from xs (- t) = drop (length xs - nat t) xs"
  by (auto simp: slice_to_def slice_from_def slice_bound_def max_def nat_diff_distrib')

lemma encrypt_resolved:
  assumes "map_of SymmetricJwk_ENCRYPTION_ALGORITHMS a
             = Some (description, alg_class, key_size, iv_size, tag_size)"
    and "SymmetricJwk_key self = Inr kb"
  shows "SymmetricJwk_encrypt engine self plaintext aad (Some a) iv rnd =
     (if int (length kb) * 8 \<noteq> key_size
      then (Inl (KeySizeMismatch (int (length kb) * 8) key_size), rnd)
      else
        (let iv' = (case iv of None \<Rightarrow> stake 96 rnd | Some v \<Rightarrow> v);
             rnd' = (case iv of None \<Rightarrow> sdrop 96 rnd | Some v \<Rightarrow> rnd)
         in case aead_encrypt engine alg_class kb iv' plaintext aad of
              Inl e \<Rightarrow> (Inl e, rnd')
            | Inr cwt \<Rightarrow>
                (Inr (take (length cwt - nat tag_size) cwt,
                      drop (length cwt - nat tag_size) cwt, iv'), rnd')))"
  using assms encryption_table_entry [OF assms(1)]
  by (cases iv)
     (simp_all add: SymmetricJwk_encrypt_def SymmetricJwk_supported_encryption_algorithms_def
        get_alg_explicit SymmetricJwk_key_size_stored token_bytes_def slice_split Let_def
        split: sum.splits)

lemma decrypt_resolved:
  assumes "map_of SymmetricJwk_ENCRYPTION_ALGORITHMS a
             = Some (description, alg_class, key_size, iv_size, tag_size)"
    and "SymmetricJwk_key self = Inr kb"
  shows "SymmetricJwk_decrypt engine self cyphertext tag iv aad (Some a) =
     (if int (length kb) * 8 \<noteq> key_size
      then Inl (KeySizeMismatch (int (length kb) * 8) key_size)
      else aead_decrypt engine alg_class kb iv (cyphertext @ tag) aad)"
  using assms
  by (simp add: SymmetricJwk_decrypt_def SymmetricJwk_supported_encryption_algorithms_def
        get_alg_explicit SymmetricJwk_key_size_stored)

lemma wrap_key_resolved:
  assumes "map_of SymmetricJwk_KEY_MANAGEMENT_ALGORITHMS a
             = Some (description, wrap_method, unwrap_method, key_size)"
    and "SymmetricJwk_key self = Inr kb"
  shows "SymmetricJwk_wrap_key engine self key (Some a) =
     (if int (length kb) * 8 \<noteq> key_size
      then Inl (KeySizeMismatch (int (length kb) * 8) key_size)
      else keywrap engine wrap_method kb key)"
    and "SymmetricJwk_unwrap_key engine self cypherkey (Some a) =
     (if int (length kb) * 8 \<noteq> key_size
      then Inl (KeySizeMismatch (int (length kb) * 8) key_size)
      else keywrap engine unwrap_method kb cypherkey)"
  using assms
  by (simp_all add: SymmetricJwk_wrap_key_def SymmetricJwk_unwrap_key_def
        SymmetricJwk_supported_key_management_algorithms_def
        get_alg_explicit SymmetricJwk_key_size_stored)

lemma example_engine_law:
  "aead_encrypt example_engine alg_class key iv plaintext aad = Inr c
     \<longrightarrow> aead_decrypt example_engine alg_class key iv c aad = Inr plaintext"
  by (auto simp: example_engine_def)

lemma example_key_128_key: "SymmetricJwk_key example_key_128 = Inr (replicate 16 1)"
  by code_simp

lemma SymmetricJwk_generate_ok:
  assumes "0 \<le> n" and "''key'' \<notin> set (map fst params)" and "''k'' \<notin> set (map fst params)"
  shows "SymmetricJwk_generate n params rnd
           = (Inr ((''key'', ''oct'') # (''k'', b64u_encode (stake (nat n) rnd) False) # params),
              sdrop (nat n) rnd)"
  using assms
  by (simp add: SymmetricJwk_generate_def token_bytes_def SymmetricJwk_from_bytes_ok)

section \<open>Properties of the elliptic-curve key\<close>

lemma length_to_bytes_big: "length (to_bytes_big len i) = len"
  by (induction len arbitrary: i) simp_all

lemma to_bytes_big_zero: "to_bytes_big len 0 = replicate len 0"
  by (induction len) (simp_all add: replicate_append_same)

lemma to_bytes_big_pad:
  "0 \<le> i \<Longrightarrow> i < 256 ^ m \<Longrightarrow> m \<le> len
     \<Longrightarrow> to_bytes_big len i = replicate (len - m) 0 @ to_bytes_big m i"
proof (induction len arbitrary: i m)
  case 0
  then show ?case by simp
next
  case (Suc len)
  show ?case
  proof (cases m)
    case 0
    with Suc.prems have "i = 0" by simp
    with 0 show ?thesis by (simp only: to_bytes_big_zero) simp
  next
    case (Suc m')
    with Suc.prems have "0 \<le> i div 256" and "i div 256 < 256 ^ m'" and "m' \<le> len"
      by (simp_all add: div_less_iff_less_mult pos_imp_zdiv_nonneg_iff mult.commute)
    then have "to_bytes_big len (i div 256)
        = replicate (len - m') 0 @ to_bytes_big m' (i div 256)"
      by (rule Suc.IH)
    with Suc show ?thesis by simp
  qed
qed

lemma int_from_bytes_snoc:
  "int_from_bytes (bs @ [b]) = int_from_bytes bs * 256 + uint b"
  by (simp add: int_from_bytes_def)

lemma int_from_bytes_to_bytes_big:
  "0 \<le> i \<Longrightarrow> i < 256 ^ len \<Longrightarrow> int_from_bytes (to_bytes_big len i) = i"
proof (induction len arbitrary: i)
  case 0
  then show ?case by (simp add: int_from_bytes_def)
next
  case (Suc len)
  then have "0 \<le> i div 256" and "i div 256 < 256 ^ len"
    by (simp_all add: div_less_iff_less_mult pos_imp_zdiv_nonneg_iff mult.commute)
  then have "int_from_bytes (to_bytes_big len (i div 256)) = i div 256"
    by (rule Suc.IH)
  moreover have "uint (word_of_int (i mod 256) :: byte) = i mod 256"
    by (simp add: uint_word_of_int take_bit_eq_mod)
  ultimately show ?case
    by (simp add: int_from_bytes_snoc)
qed

lemma curve_registered:
  "map_of ECJwk_CURVES crv = Some c \<Longrightarrow> crv \<in> set (map fst ECJwk_CURVES)"
  by (metis map_of_eq_None_iff option.distinct(1) set_map)

lemma BinaPy_from_int_b64u_ok:
  "0 \<le> i \<Longrightarrow> i < 256 ^ len
     \<Longrightarrow> BinaPy_from_int_b64u i len = Inr (b64u_encode (to_bytes_big len i) False)"
  by (simp add: BinaPy_from_int_b64u_def int_to_b64u_def int_to_bytes_def)

lemma BinaPy_b64u_to_int_stored:
  "\<forall>data. decode_from (b64u_encode data False) = Inr data \<Longrightarrow> 0 \<le> i \<Longrightarrow> i < 256 ^ len
     \<Longrightarrow> BinaPy_b64u_to_int decode_from (b64u_encode (to_bytes_big len i) False) = Inr i"
  by (simp add: BinaPy_b64u_to_int_def int_from_bytes_to_bytes_big)

lemma enc_char_in_alphabet: "urlsafe_encode_translation (b2a_char v) \<in> set urlsafe_alphabet"
  using b2a_char_in_table [of v] by (simp add: urlsafe_alphabet_def del: set_map) simp

lemma encoded_in_alphabet:
  "list_all (\<lambda>c. c \<in> set urlsafe_alphabet) (rstrip_pad (urlsafe_b64encode bs))"
proof (induction bs rule: b2a_base64.induct)
  case (1 a b c rest)
  then show ?case by (simp only: strip_simps list.pred_inject enc_char_in_alphabet)
next
  case (2 a b)
  show ?case by (simp only: strip_simps list.pred_inject enc_char_in_alphabet)
next
  case (3 a)
  show ?case by (simp only: strip_simps list.pred_inject enc_char_in_alphabet)
next
  case 4
  show ?case by (simp only: strip_simps list.pred_inject)
qed

lemma example_decoder_inverts: "example_decoder (b64u_encode data False) = Inr data"
  using encoded_in_alphabet [of data]
  by (simp add: example_decoder_def b64u_decode_encode) (simp add: b64u_encode_def)

lemma example_decoder_strict:
  "example_decoder ''+/8'' = Inl (PrimitiveError ''not base64url'')"
  "example_decoder ''AQ=='' = Inl (PrimitiveError ''not base64url'')"
  "example_decoder ''-_8'' = Inr [0xfb, 0xff]"
  by code_simp+

lemma ECJwk_private_ok:
  assumes "map_of ECJwk_CURVES crv = Some c"
    and "0 \<le> x" "x < 256 ^ coordinate_size c"
    and "0 \<le> y" "y < 256 ^ coordinate_size c"
    and "0 \<le> d" "d < 256 ^ coordinate_size c"
  shows "ECJwk_private crv x y d [] =
     Inr [(''kty'', ''EC''), (''crv'', crv),
          (''x'', b64u_encode (to_bytes_big (coordinate_size c) x) False),
          (''y'', b64u_encode (to_bytes_big (coordinate_size c) y) False),
          (''d'', b64u_encode (to_bytes_big (coordinate_size c) d) False)]"
  using assms curve_registered [OF assms(1)]
  by (simp add: ECJwk_private_def ECJwk_private_dict_def ECJwk_get_curve_def
      BinaPy_from_int_b64u_ok dict_kwargs_def ECJwk_def ECJwk_validate_def ECJwk_PARAMS_def
      b64u_decode_encode Let_def del: set_map)

lemma ECJwk_public_ok:
  assumes "map_of ECJwk_CURVES crv = Some c"
    and "0 \<le> x" "x < 256 ^ coordinate_size c"
    and "0 \<le> y" "y < 256 ^ coordinate_size c"
  shows "ECJwk_public crv x y [] =
     Inr [(''key'', ''EC''), (''crv'', crv),
          (''x'', b64u_encode (to_bytes_big (coordinate_size c) x) False),
          (''y'', b64u_encode (to_bytes_big (coordinate_size c) y) False)]"
  using assms curve_registered [OF assms(1)]
  by (simp add: ECJwk_public_def ECJwk_public_dict_def ECJwk_get_curve_def
      BinaPy_from_int_b64u_ok dict_kwargs_def ECJwk_def ECJwk_validate_def ECJwk_PARAMS_def
      b64u_decode_encode Let_def del: set_map)

section \<open>Claims\<close>

text \<open>
  C10: for every byte string \<open>b\<close>, \<open>b64u_decode(b64u_encode(b)) == b\<close>. The decoder
  appends \<open>len(data) % 4\<close> padding characters, one too many or two too many for some
  lengths, and \<open>urlsafe_b64decode\<close> stops reading at the padding that completes the last
  group, so the unpadded encoding is inverted for inputs of every length.
\<close>

theorem b64u_roundtrip: "b64u_decode (b64u_encode b False) = Inr b"
  by (rule b64u_decode_encode)

theorem b64u_roundtrip_witness:
  "b64u_encode [0xfb, 0xff] False = ''-_8''
   \<and> b64u_decode (b64u_encode [0xfb, 0xff] False) = Inr [0xfb, 0xff]"
proof
  show "b64u_encode [0xfb, 0xff] False = ''-_8''" by code_simp
  show "b64u_decode (b64u_encode [0xfb, 0xff] False) = Inr [0xfb, 0xff]"
    using b64u_roundtrip [of "[0xfb, 0xff]"] .
qed

text \<open>
  C8: \<open>sign\<close> fails with an unsupported-algorithm error iff the resolved algorithm
  (the explicit one, else the key's declared one) is not in the signing table, and it
  never fails because of the key's size: whenever the resolved algorithm, passed
  explicitly or declared by the key, is one of the signing table, \<open>sign\<close> returns the
  MAC of the data under the key, for a key of any byte length, the table's minimum key
  size unread; and no call of \<open>sign\<close> ends in the key-size error. Keys of every byte
  length exist: \<open>from_bytes\<close> builds them.
\<close>

theorem sign_unsupported_iff_no_key_size_gate:
  "((\<exists>a. SymmetricJwk_sign engine self data alg = Inl (UnsupportedAlgorithm a))
      \<longleftrightarrow> (\<exists>a. (alg = Some a \<or> alg = None \<and> map_of self ''alg'' = Some a)
                \<and> a \<notin> set (map fst SymmetricJwk_SIGNATURE_ALGORITHMS)))
   \<and> (\<forall>a mac hashalg min_key_size kb.
         map_of SymmetricJwk_SIGNATURE_ALGORITHMS a = Some (mac, hashalg, min_key_size)
         \<and> SymmetricJwk_key self = Inr kb
         \<longrightarrow> SymmetricJwk_sign engine self data (Some a)
               = Inr (mac_finalize engine mac hashalg kb data))
   \<and> (\<forall>a mac hashalg min_key_size kb.
         get_alg (map_of self ''alg'') alg (SymmetricJwk_supported_signing_algorithms self)
           = Inr a
         \<and> map_of SymmetricJwk_SIGNATURE_ALGORITHMS a = Some (mac, hashalg, min_key_size)
         \<and> SymmetricJwk_key self = Inr kb
         \<longrightarrow> SymmetricJwk_sign engine self data alg
               = Inr (mac_finalize engine mac hashalg kb data))
   \<and> (\<forall>actual expected.
         SymmetricJwk_sign engine self data alg \<noteq> Inl (KeySizeMismatch actual expected))
   \<and> (\<forall>kb. \<exists>k. SymmetricJwk_from_bytes kb [] = Inr k \<and> SymmetricJwk_key k = Inr kb)"
proof (intro conjI allI impI)
  show "(\<exists>a. SymmetricJwk_sign engine self data alg = Inl (UnsupportedAlgorithm a))
      \<longleftrightarrow> (\<exists>a. (alg = Some a \<or> alg = None \<and> map_of self ''alg'' = Some a)
                \<and> a \<notin> set (map fst SymmetricJwk_SIGNATURE_ALGORITHMS))"
  proof (cases "get_alg (map_of self ''alg'') alg (map fst SymmetricJwk_SIGNATURE_ALGORITHMS)")
    case (Inl e)
    then show ?thesis
      by (auto simp: sign_resolved get_alg_def split: option.splits if_splits)
  next
    case (Inr r)
    then have chosen: "alg = Some r \<and> r \<in> set (map fst SymmetricJwk_SIGNATURE_ALGORITHMS)
        \<or> alg = None \<and> map_of self ''alg'' = Some r"
      by (auto simp: get_alg_def split: option.splits if_splits)
    show ?thesis
    proof (cases "map_of SymmetricJwk_SIGNATURE_ALGORITHMS r")
      case None
      then have "r \<notin> set (map fst SymmetricJwk_SIGNATURE_ALGORITHMS)"
        by (simp add: map_of_eq_None_iff)
      with None Inr chosen show ?thesis
        by (auto simp: sign_resolved)
    next
      case (Some entry)
      then have member: "r \<in> set (map fst SymmetricJwk_SIGNATURE_ALGORITHMS)"
        by (metis map_of_None_iff option.distinct(1))
      obtain mac hashalg min_key_size where "entry = (mac, hashalg, min_key_size)"
        by (cases entry) auto
      with Some Inr have "SymmetricJwk_sign engine self data alg
          = map_sum id (\<lambda>key. mac_finalize engine mac hashalg key data) (SymmetricJwk_key self)"
        by (simp add: sign_resolved)
      then have "\<not> (\<exists>a. SymmetricJwk_sign engine self data alg = Inl (UnsupportedAlgorithm a))"
        by (cases "SymmetricJwk_key self") (auto dest: SymmetricJwk_key_error)
      with member chosen show ?thesis
        by force
    qed
  qed
next
  fix a mac hashalg min_key_size kb
  assume "map_of SymmetricJwk_SIGNATURE_ALGORITHMS a = Some (mac, hashalg, min_key_size)
         \<and> SymmetricJwk_key self = Inr kb"
  then show "SymmetricJwk_sign engine self data (Some a)
               = Inr (mac_finalize engine mac hashalg kb data)"
    by (simp add: sign_resolved get_alg_explicit)
next
  fix a mac hashalg min_key_size kb
  assume "get_alg (map_of self ''alg'') alg (SymmetricJwk_supported_signing_algorithms self)
           = Inr a
         \<and> map_of SymmetricJwk_SIGNATURE_ALGORITHMS a = Some (mac, hashalg, min_key_size)
         \<and> SymmetricJwk_key self = Inr kb"
  then show "SymmetricJwk_sign engine self data alg
               = Inr (mac_finalize engine mac hashalg kb data)"
    by (simp add: SymmetricJwk_sign_def)
next
  fix actual expected
  show "SymmetricJwk_sign engine self data alg \<noteq> Inl (KeySizeMismatch actual expected)"
    by (cases "SymmetricJwk_key self")
       (auto simp: sign_resolved get_alg_def split: sum.splits option.splits if_splits
          dest: SymmetricJwk_key_error)
next
  fix kb
  show "\<exists>k. SymmetricJwk_from_bytes kb [] = Inr k \<and> SymmetricJwk_key k = Inr kb"
    by (simp add: SymmetricJwk_from_bytes_ok SymmetricJwk_key_stored)
qed

theorem sign_unsupported_iff_no_key_size_gate_witness:
  "SymmetricJwk_sign example_engine example_key [2] (Some ''HS512'') = Inr [1, 2]
   \<and> SymmetricJwk_sign example_engine example_key_HS512 [2] None = Inr [1, 2]
   \<and> SymmetricJwk_sign example_engine example_key [2] (Some ''HS1'')
       = Inl (UnsupportedAlgorithm ''HS1'')
   \<and> SymmetricJwk_key_size example_key = Inr 8
   \<and> SymmetricJwk_key_size example_key_HS512 = Inr 8"
proof -
  have table: "map_of SymmetricJwk_SIGNATURE_ALGORITHMS ''HS512'' = Some (HMAC, SHA512, 512)"
    by (simp add: SymmetricJwk_SIGNATURE_ALGORITHMS_def)
  have key: "SymmetricJwk_key example_key = Inr [1]"
    by code_simp
  have declared_key: "SymmetricJwk_key example_key_HS512 = Inr [1]"
    by code_simp
  have declared: "get_alg (map_of example_key_HS512 ''alg'') None
      (SymmetricJwk_supported_signing_algorithms example_key_HS512) = Inr ''HS512''"
    by code_simp
  from sign_unsupported_iff_no_key_size_gate [of example_engine example_key "[2]" "Some ''HS512''"]
  have "SymmetricJwk_sign example_engine example_key [2] (Some ''HS512'')
          = Inr (mac_finalize example_engine HMAC SHA512 [1] [2])"
    using table key by blast
  moreover
  from sign_unsupported_iff_no_key_size_gate [of example_engine example_key_HS512 "[2]" None]
  have "SymmetricJwk_sign example_engine example_key_HS512 [2] None
          = Inr (mac_finalize example_engine HMAC SHA512 [1] [2])"
    using table declared_key declared by blast
  moreover have "SymmetricJwk_sign example_engine example_key [2] (Some ''HS1'')
       = Inl (UnsupportedAlgorithm ''HS1'')"
    by code_simp
  moreover have "SymmetricJwk_key_size example_key = Inr 8"
    "SymmetricJwk_key_size example_key_HS512 = Inr 8"
    by code_simp+
  ultimately show ?thesis
    by (simp add: example_engine_def)
qed

text \<open>
  C7: for every symmetric key (one whose secret decodes), every byte string \<open>data\<close>
  and every algorithm \<open>A\<close> of the HMAC signing table,
  \<open>verify(data, sign(data, A), A)\<close> returns true; and \<open>verify\<close> returns false when
  every candidate algorithm it tries is one of the table and none of the freshly computed
  MACs equals the supplied signature.
\<close>

theorem sign_then_verify:
  "(\<forall>a mac hashalg min_key_size kb.
      map_of SymmetricJwk_SIGNATURE_ALGORITHMS a = Some (mac, hashalg, min_key_size)
      \<and> SymmetricJwk_key self = Inr kb
      \<longrightarrow> (\<exists>s. SymmetricJwk_sign engine self data (Some a) = Inr s
              \<and> SymmetricJwk_verify engine self data s (Some a) algs = Inr True))
   \<and> (\<forall>candidates kb.
        get_algs (map_of self ''alg'') alg algs (SymmetricJwk_supported_signing_algorithms self)
          = Inr candidates
        \<and> SymmetricJwk_key self = Inr kb
        \<and> (\<forall>a \<in> set candidates. \<exists>mac hashalg min_key_size.
              map_of SymmetricJwk_SIGNATURE_ALGORITHMS a = Some (mac, hashalg, min_key_size)
              \<and> mac_finalize engine mac hashalg kb data \<noteq> signature)
        \<longrightarrow> SymmetricJwk_verify engine self data signature alg algs = Inr False)"
proof (intro conjI allI impI)
  fix a mac hashalg min_key_size kb
  assume h: "map_of SymmetricJwk_SIGNATURE_ALGORITHMS a = Some (mac, hashalg, min_key_size)
      \<and> SymmetricJwk_key self = Inr kb"
  then have "SymmetricJwk_sign engine self data (Some a)
      = Inr (mac_finalize engine mac hashalg kb data)"
    by (simp add: sign_resolved get_alg_explicit)
  moreover from h have "SymmetricJwk_verify engine self data
      (mac_finalize engine mac hashalg kb data) (Some a) algs = Inr True"
    by (simp add: SymmetricJwk_verify_def SymmetricJwk_supported_signing_algorithms_def
        get_algs_explicit)
  ultimately show "\<exists>s. SymmetricJwk_sign engine self data (Some a) = Inr s
              \<and> SymmetricJwk_verify engine self data s (Some a) algs = Inr True"
    by simp
next
  fix candidates kb
  assume "get_algs (map_of self ''alg'') alg algs (SymmetricJwk_supported_signing_algorithms self)
          = Inr candidates
        \<and> SymmetricJwk_key self = Inr kb
        \<and> (\<forall>a \<in> set candidates. \<exists>mac hashalg min_key_size.
              map_of SymmetricJwk_SIGNATURE_ALGORITHMS a = Some (mac, hashalg, min_key_size)
              \<and> mac_finalize engine mac hashalg kb data \<noteq> signature)"
  then show "SymmetricJwk_verify engine self data signature alg algs = Inr False"
    by (simp add: SymmetricJwk_verify_def verify_loop_False)
qed

theorem sign_then_verify_witness:
  "SymmetricJwk_sign example_engine example_key [2] (Some ''HS256'') = Inr [1, 2]
   \<and> SymmetricJwk_verify example_engine example_key [2] [1, 2] (Some ''HS256'') None = Inr True
   \<and> SymmetricJwk_verify example_engine example_key [2] [1, 3] None None = Inr False"
proof -
  have table: "map_of SymmetricJwk_SIGNATURE_ALGORITHMS ''HS256'' = Some (HMAC, SHA256, 256)"
    by (simp add: SymmetricJwk_SIGNATURE_ALGORITHMS_def)
  have key: "SymmetricJwk_key example_key = Inr [1]"
    by code_simp
  have sig: "SymmetricJwk_sign example_engine example_key [2] (Some ''HS256'') = Inr [1, 2]"
    by code_simp
  have cands: "get_algs (map_of example_key ''alg'') None None
      (SymmetricJwk_supported_signing_algorithms example_key) = Inr [''HS256'', ''HS384'', ''HS512'']"
    by code_simp
  have differ: "\<forall>a \<in> set [''HS256'', ''HS384'', ''HS512'']. \<exists>mac hashalg min_key_size.
              map_of SymmetricJwk_SIGNATURE_ALGORITHMS a = Some (mac, hashalg, min_key_size)
              \<and> mac_finalize example_engine mac hashalg [1] [2] \<noteq> [1, 3]"
    by (simp add: SymmetricJwk_SIGNATURE_ALGORITHMS_def example_engine_def)
  note inst = sign_then_verify [where self = example_key and engine = example_engine
      and data = "[2]" and alg = None and algs = None and signature = "[1, 3]"]
  from inst table key sig
  have "SymmetricJwk_verify example_engine example_key [2] [1, 2] (Some ''HS256'') None = Inr True"
    by (metis sum.inject(2))
  moreover from inst cands key differ
  have "SymmetricJwk_verify example_engine example_key [2] [1, 3] None None = Inr False"
    by blast
  ultimately show ?thesis using sig by simp
qed

text \<open>
  C4: for every algorithm of the AEAD table, \<open>encrypt\<close> and \<open>decrypt\<close>, and for
  every algorithm of the key-wrap table, \<open>wrap_key\<close> and \<open>unwrap_key\<close>, fail with the
  key-size error whenever the key's size in bits differs from the size the algorithm
  requires, whether the algorithm is passed explicitly or is the one the key declares.
  The failure is the whole result: it is the same for every engine, so no primitive's
  answer is used, no random byte is consumed, and nothing else is returned.
\<close>

theorem key_size_mismatch:
  "(\<forall>a description alg_class key_size iv_size tag_size kb.
      get_alg (map_of self ''alg'') alg (SymmetricJwk_supported_encryption_algorithms self)
        = Inr a
      \<and> map_of SymmetricJwk_ENCRYPTION_ALGORITHMS a
        = Some (description, alg_class, key_size, iv_size, tag_size)
      \<and> SymmetricJwk_key self = Inr kb \<and> int (length kb) * 8 \<noteq> key_size
      \<longrightarrow> SymmetricJwk_encrypt engine self plaintext aad alg iv rnd
            = (Inl (KeySizeMismatch (int (length kb) * 8) key_size), rnd)
          \<and> SymmetricJwk_decrypt engine self cyphertext tag iv' aad alg
            = Inl (KeySizeMismatch (int (length kb) * 8) key_size))
   \<and> (\<forall>a description wrap_method unwrap_method key_size kb.
        get_alg (map_of self ''alg'') alg
          (SymmetricJwk_supported_key_management_algorithms self) = Inr a
        \<and> map_of SymmetricJwk_KEY_MANAGEMENT_ALGORITHMS a
          = Some (description, wrap_method, unwrap_method, key_size)
        \<and> SymmetricJwk_key self = Inr kb \<and> int (length kb) * 8 \<noteq> key_size
        \<longrightarrow> SymmetricJwk_wrap_key engine self key alg
              = Inl (KeySizeMismatch (int (length kb) * 8) key_size)
            \<and> SymmetricJwk_unwrap_key engine self cypherkey alg
              = Inl (KeySizeMismatch (int (length kb) * 8) key_size))
   \<and> (\<forall>a description alg_class key_size iv_size tag_size kb.
      map_of SymmetricJwk_ENCRYPTION_ALGORITHMS a
        = Some (description, alg_class, key_size, iv_size, tag_size)
      \<and> SymmetricJwk_key self = Inr kb \<and> int (length kb) * 8 \<noteq> key_size
      \<longrightarrow> SymmetricJwk_encrypt engine self plaintext aad (Some a) iv rnd
            = (Inl (KeySizeMismatch (int (length kb) * 8) key_size), rnd)
          \<and> SymmetricJwk_decrypt engine self cyphertext tag iv' aad (Some a)
            = Inl (KeySizeMismatch (int (length kb) * 8) key_size))
   \<and> (\<forall>a description wrap_method unwrap_method key_size kb.
        map_of SymmetricJwk_KEY_MANAGEMENT_ALGORITHMS a
          = Some (description, wrap_method, unwrap_method, key_size)
        \<and> SymmetricJwk_key self = Inr kb \<and> int (length kb) * 8 \<noteq> key_size
        \<longrightarrow> SymmetricJwk_wrap_key engine self key (Some a)
              = Inl (KeySizeMismatch (int (length kb) * 8) key_size)
            \<and> SymmetricJwk_unwrap_key engine self cypherkey (Some a)
              = Inl (KeySizeMismatch (int (length kb) * 8) key_size))"
proof (intro conjI allI impI)
  fix a description alg_class key_size iv_size tag_size kb
  assume "get_alg (map_of self ''alg'') alg (SymmetricJwk_supported_encryption_algorithms self)
        = Inr a
      \<and> map_of SymmetricJwk_ENCRYPTION_ALGORITHMS a
        = Some (description, alg_class, key_size, iv_size, tag_size)
      \<and> SymmetricJwk_key self = Inr kb \<and> int (length kb) * 8 \<noteq> key_size"
  then show "SymmetricJwk_encrypt engine self plaintext aad alg iv rnd
            = (Inl (KeySizeMismatch (int (length kb) * 8) key_size), rnd)"
    and "SymmetricJwk_decrypt engine self cyphertext tag iv' aad alg
            = Inl (KeySizeMismatch (int (length kb) * 8) key_size)"
    by (simp_all add: SymmetricJwk_encrypt_def SymmetricJwk_decrypt_def
        SymmetricJwk_key_size_stored)
next
  fix a description wrap_method unwrap_method key_size kb
  assume "get_alg (map_of self ''alg'') alg
          (SymmetricJwk_supported_key_management_algorithms self) = Inr a
        \<and> map_of SymmetricJwk_KEY_MANAGEMENT_ALGORITHMS a
          = Some (description, wrap_method, unwrap_method, key_size)
        \<and> SymmetricJwk_key self = Inr kb \<and> int (length kb) * 8 \<noteq> key_size"
  then show "SymmetricJwk_wrap_key engine self key alg
              = Inl (KeySizeMismatch (int (length kb) * 8) key_size)"
    and "SymmetricJwk_unwrap_key engine self cypherkey alg
              = Inl (KeySizeMismatch (int (length kb) * 8) key_size)"
    by (simp_all add: SymmetricJwk_wrap_key_def SymmetricJwk_unwrap_key_def
        SymmetricJwk_key_size_stored)
next
  fix a description alg_class key_size iv_size tag_size kb
  assume "map_of SymmetricJwk_ENCRYPTION_ALGORITHMS a
        = Some (description, alg_class, key_size, iv_size, tag_size)
      \<and> SymmetricJwk_key self = Inr kb \<and> int (length kb) * 8 \<noteq> key_size"
  then show "SymmetricJwk_encrypt engine self plaintext aad (Some a) iv rnd
            = (Inl (KeySizeMismatch (int (length kb) * 8) key_size), rnd)"
    and "SymmetricJwk_decrypt engine self cyphertext tag iv' aad (Some a)
            = Inl (KeySizeMismatch (int (length kb) * 8) key_size)"
    by (simp_all add: encrypt_resolved decrypt_resolved)
next
  fix a description wrap_method unwrap_method key_size kb
  assume "map_of SymmetricJwk_KEY_MANAGEMENT_ALGORITHMS a
          = Some (description, wrap_method, unwrap_method, key_size)
        \<and> SymmetricJwk_key self = Inr kb \<and> int (length kb) * 8 \<noteq> key_size"
  then show "SymmetricJwk_wrap_key engine self key (Some a)
              = Inl (KeySizeMismatch (int (length kb) * 8) key_size)"
    and "SymmetricJwk_unwrap_key engine self cypherkey (Some a)
              = Inl (KeySizeMismatch (int (length kb) * 8) key_size)"
    by (simp_all add: wrap_key_resolved)
qed

theorem key_size_mismatch_witness:
  "SymmetricJwk_encrypt example_engine example_key [7] None (Some ''A128GCM'') None (sconst 0)
     = (Inl (KeySizeMismatch 8 128), sconst 0)
   \<and> SymmetricJwk_decrypt example_engine example_key [7] [] [] None (Some ''A128GCM'')
     = Inl (KeySizeMismatch 8 128)
   \<and> SymmetricJwk_wrap_key example_engine example_key [7] (Some ''A256KW'')
     = Inl (KeySizeMismatch 8 256)
   \<and> SymmetricJwk_unwrap_key example_engine example_key [7] (Some ''A256KW'')
     = Inl (KeySizeMismatch 8 256)
   \<and> SymmetricJwk_encrypt example_engine example_key_A128GCM [7] None None None (sconst 0)
     = (Inl (KeySizeMismatch 8 128), sconst 0)
   \<and> SymmetricJwk_decrypt example_engine example_key_A128GCM [7] [] [] None None
     = Inl (KeySizeMismatch 8 128)
   \<and> SymmetricJwk_wrap_key example_engine example_key_A256KW [7] None
     = Inl (KeySizeMismatch 8 256)
   \<and> SymmetricJwk_unwrap_key example_engine example_key_A256KW [7] None
     = Inl (KeySizeMismatch 8 256)"
proof -
  have enc: "map_of SymmetricJwk_ENCRYPTION_ALGORITHMS ''A128GCM''
      = Some (''AES GCM using 128-bit key'', AESGCM, 128, 96, 16)"
    by (simp add: SymmetricJwk_ENCRYPTION_ALGORITHMS_def)
  have kw: "map_of SymmetricJwk_KEY_MANAGEMENT_ALGORITHMS ''A256KW''
      = Some (''AES Key Wrap with default initial value using 256-bit key'',
              Aes_key_wrap, Aes_key_unwrap, 256)"
    by (simp add: SymmetricJwk_KEY_MANAGEMENT_ALGORITHMS_def)
  have key: "SymmetricJwk_key example_key = Inr [1]"
    "SymmetricJwk_key example_key_A128GCM = Inr [1]"
    "SymmetricJwk_key example_key_A256KW = Inr [1]"
    by code_simp+
  have declared_enc: "get_alg (map_of example_key_A128GCM ''alg'') None
      (SymmetricJwk_supported_encryption_algorithms example_key_A128GCM) = Inr ''A128GCM''"
    by code_simp
  have declared_kw: "get_alg (map_of example_key_A256KW ''alg'') None
      (SymmetricJwk_supported_key_management_algorithms example_key_A256KW) = Inr ''A256KW''"
    by code_simp
  have size: "int (length [1::byte]) * 8 \<noteq> 128" "int (length [1::byte]) * 8 \<noteq> 256"
    by simp_all
  have "SymmetricJwk_encrypt example_engine example_key [7] None (Some ''A128GCM'') None (sconst 0)
     = (Inl (KeySizeMismatch (int (length [1::byte]) * 8) 128), sconst 0)
   \<and> SymmetricJwk_decrypt example_engine example_key [7] [] [] None (Some ''A128GCM'')
     = Inl (KeySizeMismatch (int (length [1::byte]) * 8) 128)"
    by (rule key_size_mismatch [THEN conjunct2, THEN conjunct2, THEN conjunct1, rule_format])
       (simp add: enc key)
  moreover
  have "SymmetricJwk_wrap_key example_engine example_key [7] (Some ''A256KW'')
     = Inl (KeySizeMismatch (int (length [1::byte]) * 8) 256)
   \<and> SymmetricJwk_unwrap_key example_engine example_key [7] (Some ''A256KW'')
     = Inl (KeySizeMismatch (int (length [1::byte]) * 8) 256)"
    by (rule key_size_mismatch [THEN conjunct2, THEN conjunct2, THEN conjunct2, rule_format])
       (simp add: kw key)
  moreover
  have "SymmetricJwk_encrypt example_engine example_key_A128GCM [7] None None None (sconst 0)
     = (Inl (KeySizeMismatch (int (length [1::byte]) * 8) 128), sconst 0)
   \<and> SymmetricJwk_decrypt example_engine example_key_A128GCM [7] [] [] None None
     = Inl (KeySizeMismatch (int (length [1::byte]) * 8) 128)"
    by (rule key_size_mismatch [THEN conjunct1, rule_format, where a = "''A128GCM''"])
       (simp add: declared_enc enc key)
  moreover
  have "SymmetricJwk_wrap_key example_engine example_key_A256KW [7] None
     = Inl (KeySizeMismatch (int (length [1::byte]) * 8) 256)
   \<and> SymmetricJwk_unwrap_key example_engine example_key_A256KW [7] None
     = Inl (KeySizeMismatch (int (length [1::byte]) * 8) 256)"
    by (rule key_size_mismatch [THEN conjunct2, THEN conjunct1, rule_format,
          where a = "''A256KW''"])
       (simp add: declared_kw kw key)
  ultimately show ?thesis by simp
qed

text \<open>
  C5: for every algorithm \<open>A\<close> of the AEAD table, every key whose size is the one
  \<open>A\<close> requires, every plaintext, AAD and IV, where the engine's decryption inverts
  its encryption: when the primitive returns, \<open>encrypt\<close> returns its output split at
  the total length minus \<open>A\<close>'s declared tag size (at 0 when the output is shorter
  than that), with the IV it was given; and passing the triple \<open>encrypt\<close> returned to
  \<open>decrypt\<close> with the same key, AAD and \<open>A\<close> returns the plaintext.
\<close>

theorem encrypt_then_decrypt:
  assumes "\<forall>alg_class key iv plaintext aad c.
             aead_encrypt engine alg_class key iv plaintext aad = Inr c
             \<longrightarrow> aead_decrypt engine alg_class key iv c aad = Inr plaintext"
    and "map_of SymmetricJwk_ENCRYPTION_ALGORITHMS a
           = Some (description, alg_class, key_size, iv_size, tag_size)"
    and "SymmetricJwk_key self = Inr kb"
    and "int (length kb) * 8 = key_size"
  shows "(\<forall>cwt. aead_encrypt engine alg_class kb iv plaintext aad = Inr cwt
            \<longrightarrow> SymmetricJwk_encrypt engine self plaintext aad (Some a) (Some iv) rnd
                  = (Inr (take (length cwt - nat tag_size) cwt,
                          drop (length cwt - nat tag_size) cwt, iv), rnd))
       \<and> (\<forall>cyphertext tag iv' rnd'.
            SymmetricJwk_encrypt engine self plaintext aad (Some a) (Some iv) rnd
              = (Inr (cyphertext, tag, iv'), rnd')
            \<longrightarrow> SymmetricJwk_decrypt engine self cyphertext tag iv' aad (Some a)
                  = Inr plaintext)"
proof (intro conjI allI impI)
  fix cwt
  assume "aead_encrypt engine alg_class kb iv plaintext aad = Inr cwt"
  with assms(4) show "SymmetricJwk_encrypt engine self plaintext aad (Some a) (Some iv) rnd
                  = (Inr (take (length cwt - nat tag_size) cwt,
                          drop (length cwt - nat tag_size) cwt, iv), rnd)"
    by (simp add: encrypt_resolved [OF assms(2,3)])
next
  fix cyphertext tag iv' rnd'
  assume "SymmetricJwk_encrypt engine self plaintext aad (Some a) (Some iv) rnd
              = (Inr (cyphertext, tag, iv'), rnd')"
  with assms(4) obtain cwt where
    prim: "aead_encrypt engine alg_class kb iv plaintext aad = Inr cwt"
    and parts: "cyphertext = take (length cwt - nat tag_size) cwt"
      "tag = drop (length cwt - nat tag_size) cwt" "iv' = iv"
    by (auto simp: encrypt_resolved [OF assms(2,3)] split: sum.splits)
  from parts have "cyphertext @ tag = cwt"
    by simp
  moreover from assms(1) prim have "aead_decrypt engine alg_class kb iv cwt aad = Inr plaintext"
    by blast
  ultimately show "SymmetricJwk_decrypt engine self cyphertext tag iv' aad (Some a)
                  = Inr plaintext"
    using assms(4) parts(3) by (simp add: decrypt_resolved [OF assms(2,3)])
qed

theorem encrypt_then_decrypt_witness:
  "SymmetricJwk_encrypt example_engine example_key_128 [7, 8] None (Some ''A192CBC-HS384'')
       (Some [9]) (sconst 0) = (Inl (KeySizeMismatch 128 192), sconst 0)
   \<and> SymmetricJwk_encrypt example_engine example_key_128 [7, 8] None (Some ''A128GCM'')
       (Some [9]) (sconst 0)
     = (Inr ([7, 8], replicate 16 1, [9]), sconst 0)
   \<and> SymmetricJwk_decrypt example_engine example_key_128 [7, 8] (replicate 16 1) [9] None
       (Some ''A128GCM'') = Inr [7, 8]"
proof -
  have law: "\<forall>alg_class key iv plaintext aad c.
             aead_encrypt example_engine alg_class key iv plaintext aad = Inr c
             \<longrightarrow> aead_decrypt example_engine alg_class key iv c aad = Inr plaintext"
    using example_engine_law by blast
  have table: "map_of SymmetricJwk_ENCRYPTION_ALGORITHMS ''A128GCM''
      = Some (''AES GCM using 128-bit key'', AESGCM, 128, 96, 16)"
    by (simp add: SymmetricJwk_ENCRYPTION_ALGORITHMS_def)
  have size: "int (length (replicate 16 (1::byte))) * 8 = 128"
    by simp
  have prim: "aead_encrypt example_engine AESGCM (replicate 16 1) [9] [7, 8] None
      = Inr ([7, 8] @ replicate 16 1)"
    by (simp add: example_engine_def)
  note inst = encrypt_then_decrypt [OF law table example_key_128_key size,
      where iv = "[9]" and plaintext = "[7, 8]" and aad = None and rnd = "sconst 0"]
  from inst prim
  have enc: "SymmetricJwk_encrypt example_engine example_key_128 [7, 8] None (Some ''A128GCM'')
       (Some [9]) (sconst 0)
     = (Inr ([7, 8], replicate 16 1, [9]), sconst 0)"
    by simp
  with inst
  have "SymmetricJwk_decrypt example_engine example_key_128 [7, 8] (replicate 16 1) [9] None
       (Some ''A128GCM'') = Inr [7, 8]"
    by blast
  moreover
  have "SymmetricJwk_encrypt example_engine example_key_128 [7, 8] None (Some ''A192CBC-HS384'')
       (Some [9]) (sconst 0) = (Inl (KeySizeMismatch 128 192), sconst 0)"
    by (simp add: encrypt_resolved [OF _ example_key_128_key] SymmetricJwk_ENCRYPTION_ALGORITHMS_def)
  ultimately show ?thesis using enc by simp
qed

text \<open>
  C3: \<open>encrypt\<close> without an IV. The claim asks for a fresh IV of 96 bits, 12 bytes.
  The code passes the table's \<open>iv_size\<close> of 96 to \<open>secrets.token_bytes\<close>, which counts
  bytes: whenever \<open>encrypt\<close> returns, the IV it generated is the next 96 bytes of the
  random source, 768 bits.
\<close>

theorem encrypt_generated_iv_size:
  assumes "map_of SymmetricJwk_ENCRYPTION_ALGORITHMS a
           = Some (description, alg_class, key_size, iv_size, tag_size)"
    and "SymmetricJwk_key self = Inr kb"
    and "int (length kb) * 8 = key_size"
    and "SymmetricJwk_encrypt engine self plaintext aad (Some a) None rnd
           = (Inr (cyphertext, tag, iv), rnd')"
  shows "iv = stake 96 rnd \<and> length iv = 96 \<and> rnd' = sdrop 96 rnd"
  using assms(3,4)
  by (auto simp: encrypt_resolved [OF assms(1,2)] Let_def split: sum.splits)

theorem encrypt_generated_iv_size_witness:
  "SymmetricJwk_encrypt example_engine example_key_128 [7, 8] None (Some ''A128GCM'') None
       (sconst 5)
     = (Inr ([7, 8], replicate 16 1, replicate 96 5), sconst 5)
   \<and> length (replicate 96 (5::byte)) = 96"
proof -
  have table: "map_of SymmetricJwk_ENCRYPTION_ALGORITHMS ''A128GCM''
      = Some (''AES GCM using 128-bit key'', AESGCM, 128, 96, 16)"
    by (simp add: SymmetricJwk_ENCRYPTION_ALGORITHMS_def)
  have size: "int (length (replicate 16 (1::byte))) * 8 = 128"
    by simp
  have "\<exists>cyphertext tag iv rnd'.
      SymmetricJwk_encrypt example_engine example_key_128 [7, 8] None (Some ''A128GCM'') None
        (sconst 5) = (Inr (cyphertext, tag, iv), rnd')
      \<and> cyphertext = [7, 8] \<and> tag = replicate 16 1"
    using size
    by (simp add: encrypt_resolved [OF table example_key_128_key] example_engine_def Let_def)
  then obtain iv rnd' where
    run: "SymmetricJwk_encrypt example_engine example_key_128 [7, 8] None (Some ''A128GCM'') None
        (sconst 5) = (Inr ([7, 8], replicate 16 1, iv), rnd')"
    by blast
  from encrypt_generated_iv_size [OF table example_key_128_key size run]
  have "iv = stake 96 (sconst 5)" and "rnd' = sdrop 96 (sconst 5)"
    by simp_all
  with run show ?thesis
    by (simp add: map_replicate_trivial)
qed

text \<open>
  C9: \<open>supported_signing_algorithms\<close> returns exactly the identifiers of the EC
  signing table whose required curve is the key's curve: \<open>ES256\<close> alone for a P-256
  key, \<open>ES256K\<close> alone for a secp256k1 key, and for a key on any registered curve
  never an algorithm of another curve.
\<close>

theorem supported_signing_algorithms_by_curve:
  "(map_of self ''crv'' = Some ''P-256''
      \<longrightarrow> ECJwk_supported_signing_algorithms self = Inr [''ES256''])
   \<and> (map_of self ''crv'' = Some ''secp256k1''
      \<longrightarrow> ECJwk_supported_signing_algorithms self = Inr [''ES256K''])
   \<and> (\<forall>c. ECJwk_curve self = Inr c
      \<longrightarrow> (\<exists>algs. ECJwk_supported_signing_algorithms self = Inr algs
            \<and> set algs = {n. \<exists>alg. (n, alg) \<in> set ECJwk_SIGNATURE_ALGORITHMS \<and> alg_curve alg = c}
            \<and> (\<forall>n \<in> set algs. \<forall>alg. map_of ECJwk_SIGNATURE_ALGORITHMS n = Some alg
                  \<longrightarrow> alg_curve alg = c)))"
proof (intro conjI allI impI)
  assume "map_of self ''crv'' = Some ''P-256''"
  then show "ECJwk_supported_signing_algorithms self = Inr [''ES256'']"
    by (simp add: ECJwk_supported_signing_algorithms_def ECJwk_curve_def ECJwk_get_curve_def
        ECJwk_CURVES_def ECJwk_SIGNATURE_ALGORITHMS_def P_256_def P_384_def P_521_def
        secp256k1_def ES256_def ES384_def ES512_def ES256K_def)
next
  assume "map_of self ''crv'' = Some ''secp256k1''"
  then show "ECJwk_supported_signing_algorithms self = Inr [''ES256K'']"
    by (simp add: ECJwk_supported_signing_algorithms_def ECJwk_curve_def ECJwk_get_curve_def
        ECJwk_CURVES_def ECJwk_SIGNATURE_ALGORITHMS_def P_256_def P_384_def P_521_def
        secp256k1_def ES256_def ES384_def ES512_def ES256K_def)
next
  fix c
  assume c: "ECJwk_curve self = Inr c"
  let ?algs = "map fst (filter (\<lambda>(name, alg). alg_curve alg = c) ECJwk_SIGNATURE_ALGORITHMS)"
  have run: "ECJwk_supported_signing_algorithms self = Inr ?algs"
    using c by (simp add: ECJwk_supported_signing_algorithms_def)
  have exact: "set ?algs
      = {n. \<exists>alg. (n, alg) \<in> set ECJwk_SIGNATURE_ALGORITHMS \<and> alg_curve alg = c}"
    by force
  have names: "distinct (map fst ECJwk_SIGNATURE_ALGORITHMS)"
    by (simp add: ECJwk_SIGNATURE_ALGORITHMS_def ES256_def ES384_def ES512_def ES256K_def)
  have "\<forall>n \<in> set ?algs. \<forall>alg. map_of ECJwk_SIGNATURE_ALGORITHMS n = Some alg
                  \<longrightarrow> alg_curve alg = c"
  proof (intro ballI allI impI)
    fix n alg
    assume "n \<in> set ?algs" and "map_of ECJwk_SIGNATURE_ALGORITHMS n = Some alg"
    then obtain alg' where "(n, alg') \<in> set ECJwk_SIGNATURE_ALGORITHMS" "alg_curve alg' = c"
      by auto
    moreover from this names have "map_of ECJwk_SIGNATURE_ALGORITHMS n = Some alg'"
      by simp
    ultimately show "alg_curve alg = c"
      using \<open>map_of ECJwk_SIGNATURE_ALGORITHMS n = Some alg\<close> by simp
  qed
  with run exact show "\<exists>algs. ECJwk_supported_signing_algorithms self = Inr algs
            \<and> set algs = {n. \<exists>alg. (n, alg) \<in> set ECJwk_SIGNATURE_ALGORITHMS \<and> alg_curve alg = c}
            \<and> (\<forall>n \<in> set algs. \<forall>alg. map_of ECJwk_SIGNATURE_ALGORITHMS n = Some alg
                  \<longrightarrow> alg_curve alg = c)"
    by blast
qed


theorem supported_signing_algorithms_by_curve_witness:
  "ECJwk_supported_signing_algorithms [(''kty'', ''EC''), (''crv'', ''P-256'')] = Inr [''ES256'']
   \<and> ECJwk_supported_signing_algorithms [(''kty'', ''EC''), (''crv'', ''secp256k1'')]
       = Inr [''ES256K'']
   \<and> ECJwk_supported_signing_algorithms [(''kty'', ''EC''), (''crv'', ''P-384'')]
       = Inr [''ES384'']"
proof -
  have "map_of [(''kty'', ''EC''), (''crv'', ''P-256'')] ''crv'' = Some ''P-256''"
    by simp
  with supported_signing_algorithms_by_curve [of "[(''kty'', ''EC''), (''crv'', ''P-256'')]"]
  have "ECJwk_supported_signing_algorithms [(''kty'', ''EC''), (''crv'', ''P-256'')]
      = Inr [''ES256'']"
    by blast
  moreover
  have "map_of [(''kty'', ''EC''), (''crv'', ''secp256k1'')] ''crv'' = Some ''secp256k1''"
    by simp
  with supported_signing_algorithms_by_curve [of "[(''kty'', ''EC''), (''crv'', ''secp256k1'')]"]
  have "ECJwk_supported_signing_algorithms [(''kty'', ''EC''), (''crv'', ''secp256k1'')]
      = Inr [''ES256K'']"
    by blast
  moreover
  have "ECJwk_supported_signing_algorithms [(''kty'', ''EC''), (''crv'', ''P-384'')]
      = Inr [''ES384'']"
    by code_simp
  ultimately show ?thesis
    by simp
qed

text \<open>
  C1, as the code has it: for every non-negative integer \<open>n\<close>, \<open>generate(n)\<close> returns a
  key that holds the next \<open>n\<close> bytes of the random source, and the key's \<open>key_size\<close>
  is \<open>8 * n\<close> bits. The size argument counts bytes, as the docstring of \<open>generate\<close>
  says.
\<close>

theorem generate_key_size_in_bytes:
  assumes "0 \<le> n" and "''key'' \<notin> set (map fst params)" and "''k'' \<notin> set (map fst params)"
  shows "\<exists>jwk. SymmetricJwk_generate n params rnd = (Inr jwk, sdrop (nat n) rnd)
           \<and> SymmetricJwk_key jwk = Inr (stake (nat n) rnd)
           \<and> SymmetricJwk_key_size jwk = Inr (8 * n)"
proof -
  let ?jwk = "(''key'', ''oct'') # (''k'', b64u_encode (stake (nat n) rnd) False) # params"
  have key: "SymmetricJwk_key ?jwk = Inr (stake (nat n) rnd)"
    by (rule SymmetricJwk_key_stored) simp
  with assms(1) have "SymmetricJwk_key_size ?jwk = Inr (8 * n)"
    by (simp add: SymmetricJwk_key_size_stored)
  with key SymmetricJwk_generate_ok [OF assms] show ?thesis
    by blast
qed

theorem generate_key_size_in_bytes_witness:
  "SymmetricJwk_generate 32 [] (sconst 0)
     = (Inr [(''key'', ''oct''), (''k'', b64u_encode (replicate 32 0) False)], sconst 0)
   \<and> SymmetricJwk_key_size [(''key'', ''oct''), (''k'', b64u_encode (replicate 32 0) False)]
     = Inr 256"
proof -
  have run: "SymmetricJwk_generate 32 [] (sconst 0)
     = (Inr [(''key'', ''oct''), (''k'', b64u_encode (replicate 32 0) False)], sconst 0)"
    by (simp add: SymmetricJwk_generate_ok map_replicate_trivial)
  from generate_key_size_in_bytes [of 32 "[]" "sconst 0"]
  obtain jwk where "SymmetricJwk_generate 32 [] (sconst 0) = (Inr jwk, sdrop (nat 32) (sconst 0))"
    and "SymmetricJwk_key_size jwk = Inr (8 * 32)"
    by auto
  with run show ?thesis
    by simp
qed

text \<open>
  C1, as the claim states it, fails at its own example: the key that \<open>generate(256)\<close>
  returns has a \<open>key_size\<close> of 2048 bits, not 256.
\<close>

theorem generate_256_counterexample:
  "SymmetricJwk_generate 256 [] (sconst 0)
     = (Inr [(''key'', ''oct''), (''k'', b64u_encode (replicate 256 0) False)], sconst 0)
   \<and> SymmetricJwk_key_size [(''key'', ''oct''), (''k'', b64u_encode (replicate 256 0) False)]
     = Inr 2048
   \<and> SymmetricJwk_key_size [(''key'', ''oct''), (''k'', b64u_encode (replicate 256 0) False)]
     \<noteq> Inr 256"
proof -
  have "SymmetricJwk_key [(''key'', ''oct''), (''k'', b64u_encode (replicate 256 0) False)]
      = Inr (replicate 256 0)"
    by (rule SymmetricJwk_key_stored) simp
  then have "SymmetricJwk_key_size [(''key'', ''oct''), (''k'', b64u_encode (replicate 256 0) False)]
     = Inr 2048"
    by (simp add: SymmetricJwk_key_size_stored)
  then show ?thesis
    by (simp add: SymmetricJwk_generate_ok map_replicate_trivial)
qed

text \<open>
  C2: the key-type tag in the mappings the factories build. \<open>private\<close> writes
  \<open>kty="EC"\<close>. \<open>public\<close> and \<open>from_bytes\<close> write the keyword \<open>key\<close> instead:
  their mapping has the entry \<open>key\<close> and holds \<open>kty\<close> only if the caller passed one
  among the extra parameters.
\<close>

theorem factory_key_type_tag:
  "(\<forall>m. ECJwk_private_dict crv x y d params = Inr m \<longrightarrow> map_of m ''kty'' = Some ''EC'')
   \<and> (\<forall>m. ECJwk_public_dict crv x y params = Inr m
        \<longrightarrow> map_of m ''key'' = Some ''EC'' \<and> map_of m ''kty'' = map_of params ''kty'')
   \<and> (\<forall>m. SymmetricJwk_from_bytes_dict k params = Inr m
        \<longrightarrow> map_of m ''key'' = Some ''oct'' \<and> map_of m ''kty'' = map_of params ''kty'')"
  by (auto simp: ECJwk_private_dict_def ECJwk_public_dict_def SymmetricJwk_from_bytes_dict_def
      dict_kwargs_def Let_def split: sum.splits if_splits)

theorem factory_key_type_tag_witness:
  "ECJwk_public ''P-256'' 1 2 []
     = Inr [(''key'', ''EC''), (''crv'', ''P-256''),
            (''x'', ''AAAAAAAAAAAAAAAAAAAAAAAAAAAAAAAAAAAAAAAAAAE''),
            (''y'', ''AAAAAAAAAAAAAAAAAAAAAAAAAAAAAAAAAAAAAAAAAAI'')]
   \<and> map_of [(''key'', ''EC''), (''crv'', ''P-256''),
            (''x'', ''AAAAAAAAAAAAAAAAAAAAAAAAAAAAAAAAAAAAAAAAAAE''),
            (''y'', ''AAAAAAAAAAAAAAAAAAAAAAAAAAAAAAAAAAAAAAAAAAI'')] ''kty'' = None
   \<and> SymmetricJwk_from_bytes [1] [] = Inr [(''key'', ''oct''), (''k'', ''AQ'')]
   \<and> map_of [(''key'', ''oct''), (''k'', ''AQ'')] ''kty'' = None"
proof -
  have pub: "ECJwk_public_dict ''P-256'' 1 2 []
     = Inr [(''key'', ''EC''), (''crv'', ''P-256''),
            (''x'', ''AAAAAAAAAAAAAAAAAAAAAAAAAAAAAAAAAAAAAAAAAAE''),
            (''y'', ''AAAAAAAAAAAAAAAAAAAAAAAAAAAAAAAAAAAAAAAAAAI'')]"
    by code_simp
  have sym: "SymmetricJwk_from_bytes_dict [1] [] = Inr [(''key'', ''oct''), (''k'', ''AQ'')]"
    by code_simp
  note inst = factory_key_type_tag [where crv = "''P-256''" and x = 1 and y = 2 and params = "[]"
      and k = "[1]"]
  from inst pub have "map_of [(''key'', ''EC''), (''crv'', ''P-256''),
            (''x'', ''AAAAAAAAAAAAAAAAAAAAAAAAAAAAAAAAAAAAAAAAAAE''),
            (''y'', ''AAAAAAAAAAAAAAAAAAAAAAAAAAAAAAAAAAAAAAAAAAI'')] ''kty'' = map_of [] ''kty''"
    by blast
  moreover from inst sym have "map_of [(''key'', ''oct''), (''k'', ''AQ'')] ''kty'' = map_of [] ''kty''"
    by blast
  moreover have "ECJwk_public ''P-256'' 1 2 []
     = Inr [(''key'', ''EC''), (''crv'', ''P-256''),
            (''x'', ''AAAAAAAAAAAAAAAAAAAAAAAAAAAAAAAAAAAAAAAAAAE''),
            (''y'', ''AAAAAAAAAAAAAAAAAAAAAAAAAAAAAAAAAAAAAAAAAAI'')]"
    by code_simp
  moreover have "SymmetricJwk_from_bytes [1] [] = Inr [(''key'', ''oct''), (''k'', ''AQ'')]"
    by code_simp
  ultimately show ?thesis
    by simp
qed

text \<open>
  C6, as the code has it: for every registered curve \<open>C\<close>, each coordinate integer
  narrower than \<open>C\<close>'s coordinate size is zero-padded on the left, so that the values
  \<open>private\<close> stores for \<open>x\<close>, \<open>y\<close> and \<open>d\<close>, and \<open>public\<close> for \<open>x\<close> and \<open>y\<close>, are
  the encodings of exactly \<open>C\<close>'s coordinate size in bytes; with a decoder that inverts
  the encoding, the accessors of the key return the integers that went in. Decoding
  checks no length: whatever bytes a stored coordinate decodes to, and so for the
  encoding of any number of bytes, the accessor returns their big-endian value; the
  curve's coordinate size is not read.
\<close>

theorem coordinate_encoding_and_decoding:
  assumes "\<forall>data. decode_from (b64u_encode data False) = Inr data"
    and "map_of ECJwk_CURVES crv = Some c"
    and "0 \<le> x" "x < 256 ^ mx" "mx \<le> coordinate_size c"
    and "0 \<le> y" "y < 256 ^ my" "my \<le> coordinate_size c"
    and "0 \<le> d" "d < 256 ^ md" "md \<le> coordinate_size c"
  shows "(\<exists>key xb yb db.
            xb = replicate (coordinate_size c - mx) 0 @ to_bytes_big mx x
            \<and> yb = replicate (coordinate_size c - my) 0 @ to_bytes_big my y
            \<and> db = replicate (coordinate_size c - md) 0 @ to_bytes_big md d
            \<and> length xb = coordinate_size c
            \<and> length yb = coordinate_size c
            \<and> length db = coordinate_size c
            \<and> key = [(''kty'', ''EC''), (''crv'', crv), (''x'', b64u_encode xb False),
                      (''y'', b64u_encode yb False), (''d'', b64u_encode db False)]
            \<and> ECJwk_private crv x y d [] = Inr key
            \<and> ECJwk_public crv x y []
                = Inr [(''key'', ''EC''), (''crv'', crv), (''x'', b64u_encode xb False),
                       (''y'', b64u_encode yb False)]
            \<and> ECJwk_x_coordinate decode_from key = Inr x
            \<and> ECJwk_y_coordinate decode_from key = Inr y
            \<and> ECJwk_ecc_private_key decode_from key = Inr d)
       \<and> (\<forall>self v bs. map_of self ''x'' = Some v \<and> decode_from v = Inr bs
            \<longrightarrow> ECJwk_x_coordinate decode_from self = Inr (int_from_bytes bs))
       \<and> (\<forall>self v bs. map_of self ''y'' = Some v \<and> decode_from v = Inr bs
            \<longrightarrow> ECJwk_y_coordinate decode_from self = Inr (int_from_bytes bs))
       \<and> (\<forall>self v bs. map_of self ''d'' = Some v \<and> decode_from v = Inr bs
            \<longrightarrow> ECJwk_ecc_private_key decode_from self = Inr (int_from_bytes bs))
       \<and> (\<forall>self bs. map_of self ''x'' = Some (b64u_encode bs False)
            \<longrightarrow> ECJwk_x_coordinate decode_from self = Inr (int_from_bytes bs))
       \<and> (\<forall>self bs. map_of self ''y'' = Some (b64u_encode bs False)
            \<longrightarrow> ECJwk_y_coordinate decode_from self = Inr (int_from_bytes bs))
       \<and> (\<forall>self bs. map_of self ''d'' = Some (b64u_encode bs False)
            \<longrightarrow> ECJwk_ecc_private_key decode_from self = Inr (int_from_bytes bs))"
proof (intro conjI)
  let ?n = "coordinate_size c"
  let ?key = "[(''kty'', ''EC''), (''crv'', crv),
          (''x'', b64u_encode (to_bytes_big ?n x) False),
          (''y'', b64u_encode (to_bytes_big ?n y) False),
          (''d'', b64u_encode (to_bytes_big ?n d) False)]"
  have wider: "\<And>m. m \<le> ?n \<Longrightarrow> (256::int) ^ m \<le> 256 ^ ?n"
    by (simp add: power_increasing)
  have x_fits: "x < 256 ^ ?n"
    using assms(4) wider [OF assms(5)] by (rule less_le_trans)
  have y_fits: "y < 256 ^ ?n"
    using assms(7) wider [OF assms(8)] by (rule less_le_trans)
  have d_fits: "d < 256 ^ ?n"
    using assms(10) wider [OF assms(11)] by (rule less_le_trans)
  have built_private: "ECJwk_private crv x y d [] = Inr ?key"
    using assms(2,3) x_fits assms(6) y_fits assms(9) d_fits by (rule ECJwk_private_ok)
  have built_public: "ECJwk_public crv x y [] =
     Inr [(''key'', ''EC''), (''crv'', crv),
          (''x'', b64u_encode (to_bytes_big ?n x) False),
          (''y'', b64u_encode (to_bytes_big ?n y) False)]"
    using assms(2,3) x_fits assms(6) y_fits by (rule ECJwk_public_ok)
  have padded:
    "to_bytes_big ?n x = replicate (?n - mx) 0 @ to_bytes_big mx x"
    "to_bytes_big ?n y = replicate (?n - my) 0 @ to_bytes_big my y"
    "to_bytes_big ?n d = replicate (?n - md) 0 @ to_bytes_big md d"
    by (rule to_bytes_big_pad [OF assms(3-5)], rule to_bytes_big_pad [OF assms(6-8)],
        rule to_bytes_big_pad [OF assms(9-11)])
  have lengths: "length (to_bytes_big ?n x) = ?n" "length (to_bytes_big ?n y) = ?n"
    "length (to_bytes_big ?n d) = ?n"
    by (simp_all only: length_to_bytes_big)
  have accessors: "ECJwk_x_coordinate decode_from ?key = Inr x"
    "ECJwk_y_coordinate decode_from ?key = Inr y"
    "ECJwk_ecc_private_key decode_from ?key = Inr d"
    using assms(1,3,6,9) x_fits y_fits d_fits
    by (simp_all add: ECJwk_x_coordinate_def ECJwk_y_coordinate_def ECJwk_ecc_private_key_def
        getattr_def BinaPy_b64u_to_int_stored)
  show "\<exists>key xb yb db.
            xb = replicate (coordinate_size c - mx) 0 @ to_bytes_big mx x
            \<and> yb = replicate (coordinate_size c - my) 0 @ to_bytes_big my y
            \<and> db = replicate (coordinate_size c - md) 0 @ to_bytes_big md d
            \<and> length xb = coordinate_size c
            \<and> length yb = coordinate_size c
            \<and> length db = coordinate_size c
            \<and> key = [(''kty'', ''EC''), (''crv'', crv), (''x'', b64u_encode xb False),
                      (''y'', b64u_encode yb False), (''d'', b64u_encode db False)]
            \<and> ECJwk_private crv x y d [] = Inr key
            \<and> ECJwk_public crv x y []
                = Inr [(''key'', ''EC''), (''crv'', crv), (''x'', b64u_encode xb False),
                       (''y'', b64u_encode yb False)]
            \<and> ECJwk_x_coordinate decode_from key = Inr x
            \<and> ECJwk_y_coordinate decode_from key = Inr y
            \<and> ECJwk_ecc_private_key decode_from key = Inr d"
    using built_private built_public accessors lengths
    unfolding padded by simp
next
  show "\<forall>self v bs. map_of self ''x'' = Some v \<and> decode_from v = Inr bs
            \<longrightarrow> ECJwk_x_coordinate decode_from self = Inr (int_from_bytes bs)"
    by (simp add: ECJwk_x_coordinate_def getattr_def BinaPy_b64u_to_int_def)
next
  show "\<forall>self v bs. map_of self ''y'' = Some v \<and> decode_from v = Inr bs
            \<longrightarrow> ECJwk_y_coordinate decode_from self = Inr (int_from_bytes bs)"
    by (simp add: ECJwk_y_coordinate_def getattr_def BinaPy_b64u_to_int_def)
next
  show "\<forall>self v bs. map_of self ''d'' = Some v \<and> decode_from v = Inr bs
            \<longrightarrow> ECJwk_ecc_private_key decode_from self = Inr (int_from_bytes bs)"
    by (simp add: ECJwk_ecc_private_key_def getattr_def BinaPy_b64u_to_int_def)
next
  show "\<forall>self bs. map_of self ''x'' = Some (b64u_encode bs False)
            \<longrightarrow> ECJwk_x_coordinate decode_from self = Inr (int_from_bytes bs)"
    using assms(1) by (simp add: ECJwk_x_coordinate_def getattr_def BinaPy_b64u_to_int_def)
next
  show "\<forall>self bs. map_of self ''y'' = Some (b64u_encode bs False)
            \<longrightarrow> ECJwk_y_coordinate decode_from self = Inr (int_from_bytes bs)"
    using assms(1) by (simp add: ECJwk_y_coordinate_def getattr_def BinaPy_b64u_to_int_def)
next
  show "\<forall>self bs. map_of self ''d'' = Some (b64u_encode bs False)
            \<longrightarrow> ECJwk_ecc_private_key decode_from self = Inr (int_from_bytes bs)"
    using assms(1) by (simp add: ECJwk_ecc_private_key_def getattr_def BinaPy_b64u_to_int_def)
qed

theorem coordinate_encoding_and_decoding_witness:
  "ECJwk_private ''P-256'' 1 2 3 []
     = Inr [(''kty'', ''EC''), (''crv'', ''P-256''),
            (''x'', ''AAAAAAAAAAAAAAAAAAAAAAAAAAAAAAAAAAAAAAAAAAE''),
            (''y'', ''AAAAAAAAAAAAAAAAAAAAAAAAAAAAAAAAAAAAAAAAAAI''),
            (''d'', ''AAAAAAAAAAAAAAAAAAAAAAAAAAAAAAAAAAAAAAAAAAM'')]
   \<and> b64u_encode (replicate 31 0 @ [1]) False = ''AAAAAAAAAAAAAAAAAAAAAAAAAAAAAAAAAAAAAAAAAAE''
   \<and> b64u_encode (replicate 31 0 @ [2]) False = ''AAAAAAAAAAAAAAAAAAAAAAAAAAAAAAAAAAAAAAAAAAI''
   \<and> b64u_encode (replicate 31 0 @ [3]) False = ''AAAAAAAAAAAAAAAAAAAAAAAAAAAAAAAAAAAAAAAAAAM''
   \<and> ECJwk_x_coordinate example_decoder [(''kty'', ''EC''), (''crv'', ''P-256''),
            (''x'', ''AAAAAAAAAAAAAAAAAAAAAAAAAAAAAAAAAAAAAAAAAAE''),
            (''y'', ''AAAAAAAAAAAAAAAAAAAAAAAAAAAAAAAAAAAAAAAAAAI''),
            (''d'', ''AAAAAAAAAAAAAAAAAAAAAAAAAAAAAAAAAAAAAAAAAAM'')] = Inr 1
   \<and> ECJwk_x_coordinate example_decoder [(''x'', ''AQ'')] = Inr 1"
proof -
  let ?key = "[(''kty'', ''EC''), (''crv'', ''P-256''),
            (''x'', ''AAAAAAAAAAAAAAAAAAAAAAAAAAAAAAAAAAAAAAAAAAE''),
            (''y'', ''AAAAAAAAAAAAAAAAAAAAAAAAAAAAAAAAAAAAAAAAAAI''),
            (''d'', ''AAAAAAAAAAAAAAAAAAAAAAAAAAAAAAAAAAAAAAAAAAM'')]"
  have inverts: "\<forall>data. example_decoder (b64u_encode data False) = Inr data"
    by (simp add: example_decoder_inverts)
  have curve: "map_of ECJwk_CURVES ''P-256'' = Some P_256"
    by (simp add: ECJwk_CURVES_def P_256_def)
  have built: "ECJwk_private ''P-256'' 1 2 3 [] = Inr ?key"
    by code_simp
  have encodings:
    "b64u_encode (replicate 31 0 @ [1]) False = ''AAAAAAAAAAAAAAAAAAAAAAAAAAAAAAAAAAAAAAAAAAE''"
    "b64u_encode (replicate 31 0 @ [2]) False = ''AAAAAAAAAAAAAAAAAAAAAAAAAAAAAAAAAAAAAAAAAAI''"
    "b64u_encode (replicate 31 0 @ [3]) False = ''AAAAAAAAAAAAAAAAAAAAAAAAAAAAAAAAAAAAAAAAAAM''"
    by code_simp+
  note inst = coordinate_encoding_and_decoding [OF inverts curve,
      where x = 1 and mx = 1 and y = 2 and my = 1 and d = 3 and md = 1]
  have all: "(\<exists>key. ECJwk_private ''P-256'' 1 2 3 [] = Inr key
            \<and> ECJwk_x_coordinate example_decoder key = Inr 1)
      \<and> (\<forall>self bs. map_of self ''x'' = Some (b64u_encode bs False)
            \<longrightarrow> ECJwk_x_coordinate example_decoder self = Inr (int_from_bytes bs))"
    using inst by (simp add: P_256_def)
  then have "ECJwk_x_coordinate example_decoder ?key = Inr 1"
    unfolding built by simp
  moreover have "b64u_encode [1] False = ''AQ''"
    by code_simp
  then have "map_of [(''x'', ''AQ'')] ''x'' = Some (b64u_encode [1] False)"
    by simp
  with all have "ECJwk_x_coordinate example_decoder [(''x'', ''AQ'')] = Inr (int_from_bytes [1])"
    by blast
  ultimately show ?thesis
    using built encodings by (simp add: int_from_bytes_def)
qed

text \<open>
  C6, as the claim states it, fails: a key on P-256 (coordinate size 32) whose stored
  coordinates are \<open>AQ\<close>, the encoding of one byte, passes validation, and its three
  accessors return 1, here with the strict decoder.
\<close>

theorem short_coordinate_counterexample:
  "ECJwk example_short_coordinates = Inr example_short_coordinates
   \<and> ECJwk_coordinate_size example_short_coordinates = Inr 32
   \<and> map_of example_short_coordinates ''x'' = Some ''AQ''
   \<and> b64u_encode [1] False = ''AQ''
   \<and> example_decoder ''AQ'' = Inr [1]
   \<and> ECJwk_x_coordinate example_decoder example_short_coordinates = Inr 1
   \<and> ECJwk_y_coordinate example_decoder example_short_coordinates = Inr 1
   \<and> ECJwk_ecc_private_key example_decoder example_short_coordinates = Inr 1"
  by code_simp

end
